theory Spec2Isabelle
  imports
    Main
    "HOL-Library.Char_ord"
    "HOL-Library.List_Lexorder"
    "HOL-Library.Product_Lexorder"
    "HOL-Library.Extended_Nat"
    "HOL-Library.Multiset"
begin

section \<open>Python string primitives used by the script\<close>

text \<open>
  Strings are lists of characters, and a character stands for the code point of its number,
  \<open>U+0000\<close> to \<open>U+00FF\<close>. The character classes below are Python's on these code points;
  a string with a code point beyond \<open>U+00FF\<close> is not represented.
\<close>

text \<open>The ASCII decimal digits, the only characters below \<open>U+0100\<close> that \<^verbatim>\<open>int\<close>, \<^verbatim>\<open>float\<close>
  and \<^verbatim>\<open>\d\<close> take as digits.\<close>

definition is_digit :: "char \<Rightarrow> bool" where
  "is_digit c = (CHR ''0'' \<le> c \<and> c \<le> CHR ''9'')"

definition digit_val :: "char \<Rightarrow> nat" where
  "digit_val c = of_char c - 48"

text \<open>A non-empty string of ASCII decimal digits.\<close>

definition isdigit :: "string \<Rightarrow> bool" where
  "isdigit s = (s \<noteq> [] \<and> list_all is_digit s)"

text \<open>
  \<^verbatim>\<open>str.isdigit()\<close> is true of a non-empty string whose characters all have the Unicode
  property of a digit. Below \<open>U+0100\<close> these are the ASCII digits and the superscripts two,
  three and one (\<open>U+00B2\<close>, \<open>U+00B3\<close>, \<open>U+00B9\<close>), which \<^verbatim>\<open>int\<close> does not accept.
\<close>

definition is_superscript_digit :: "char \<Rightarrow> bool" where
  "is_superscript_digit c = (c \<in> {CHR 0xB2, CHR 0xB3, CHR 0xB9})"

definition str_isdigit :: "string \<Rightarrow> bool" where
  "str_isdigit s = (s \<noteq> [] \<and> list_all (\<lambda>c. is_digit c \<or> is_superscript_digit c) s)"

text \<open>The value of a string of decimal digits, most significant digit first.\<close>

definition digits_to_nat :: "string \<Rightarrow> nat" where
  "digits_to_nat s = foldl (\<lambda>acc c. 10 * acc + digit_val c) 0 s"

text \<open>\<^verbatim>\<open>s.startswith(p)\<close> and \<^verbatim>\<open>s.endswith(p)\<close>.\<close>

definition startswith :: "string \<Rightarrow> string \<Rightarrow> bool" where
  "startswith s p = (take (length p) s = p)"

definition endswith :: "string \<Rightarrow> string \<Rightarrow> bool" where
  "endswith s p = (length p \<le> length s \<and> drop (length s - length p) s = p)"

text \<open>\<^verbatim>\<open>sub in s\<close>: the substring test.\<close>

fun contains :: "string \<Rightarrow> string \<Rightarrow> bool" where
  "contains sub [] = (sub = [])"
| "contains sub (c # cs) = (startswith (c # cs) sub \<or> contains sub cs)"

text \<open>
  \<^verbatim>\<open>s.partition(sep)\<close> cuts at the first occurrence of a non-empty separator; when the
  separator does not occur the result is \<^verbatim>\<open>(s, '', '')\<close>.
\<close>

fun split_first :: "string \<Rightarrow> string \<Rightarrow> (string \<times> string) option" where
  "split_first sep [] = None"
| "split_first sep (c # cs) =
     (if startswith (c # cs) sep then Some ([], drop (length sep) (c # cs))
      else map_option (\<lambda>(a, b). (c # a, b)) (split_first sep cs))"

definition partition_py :: "string \<Rightarrow> string \<Rightarrow> string \<times> string \<times> string" where
  "partition_py sep s =
     (case split_first sep s of
        None \<Rightarrow> (s, [], [])
      | Some (a, b) \<Rightarrow> (a, sep, b))"

text \<open>\<^verbatim>\<open>s.split(c)\<close> for a one-character separator; \<^verbatim>\<open>rsplit\<close> without a limit is the same.\<close>

fun split_char :: "char \<Rightarrow> string \<Rightarrow> string list" where
  "split_char c [] = [[]]"
| "split_char c (x # xs) =
     (if x = c then [] # split_char c xs
      else (case split_char c xs of
              [] \<Rightarrow> [[x]]
            | p # ps \<Rightarrow> (x # p) # ps))"

text \<open>\<^verbatim>\<open>sep.join(parts)\<close>.\<close>

fun join :: "string \<Rightarrow> string list \<Rightarrow> string" where
  "join sep [] = []"
| "join sep [p] = p"
| "join sep (p # q # ps) = p @ sep @ join sep (q # ps)"

subsection \<open>Exceptions\<close>

text \<open>The exceptions that the modelled code raises, and \<open>Fatal\<close> for the end of the run by
  \<^verbatim>\<open>grass.fatal\<close>.\<close>

datatype error =
    KeyError | ValueError | IndexError | TypeError | OverflowError | NameError
  | UnboundLocalError | FileNotFoundError | ReadError | Fatal


subsection \<open>\<^verbatim>\<open>int(...)\<close> on a string\<close>

text \<open>
  \<^verbatim>\<open>int(s)\<close> strips white space, accepts one sign, and then wants decimal digits,
  possibly grouped by single underscores; anything else raises \<^verbatim>\<open>ValueError\<close>, which is
  \<open>None\<close> here. The white space of \<^verbatim>\<open>int\<close> and \<^verbatim>\<open>float\<close> is the ASCII one and, beyond
  ASCII, the Unicode spaces, which are turned into blanks first: \<open>U+0085\<close> and \<open>U+00A0\<close>
  below \<open>U+0100\<close>. The interpreter also raises \<^verbatim>\<open>ValueError\<close> when the string has more digits
  than \<^verbatim>\<open>sys.int_info.default_max_str_digits\<close>, which is 4300 (Python 3.11 and later, with
  the default setting); signs, spaces and underscores do not count, leading zeros do.
\<close>

definition max_str_digits :: int where
  "max_str_digits = 4300"

definition is_py_space :: "char \<Rightarrow> bool" where
  "is_py_space c =
     (c \<in> {CHR 0x09, CHR 0x0A, CHR 0x0B, CHR 0x0C, CHR 0x0D, CHR 0x20, CHR 0x85, CHR 0xA0})"

definition strip_with :: "(char \<Rightarrow> bool) \<Rightarrow> string \<Rightarrow> string" where
  "strip_with p s = dropWhile p (rev (dropWhile p (rev s)))"

fun no_double_underscore :: "string \<Rightarrow> bool" where
  "no_double_underscore (a # b # cs) =
     (\<not> (a = CHR ''_'' \<and> b = CHR ''_'') \<and> no_double_underscore (b # cs))"
| "no_double_underscore cs = True"

definition digitpart :: "string \<Rightarrow> bool" where
  "digitpart s =
     (s \<noteq> [] \<and> is_digit (hd s) \<and> is_digit (last s)
      \<and> list_all (\<lambda>c. is_digit c \<or> c = CHR ''_'') s \<and> no_double_underscore s)"

text \<open>The value of a string of decimal digits as an integer.\<close>

definition digits_to_int :: "string \<Rightarrow> int" where
  "digits_to_int s = foldl (\<lambda>acc c. 10 * acc + int (digit_val c)) 0 s"

definition digitpart_val :: "string \<Rightarrow> int" where
  "digitpart_val s = digits_to_int (filter is_digit s)"

definition py_int :: "string \<Rightarrow> int option" where
  "py_int s =
     (let t = strip_with is_py_space s;
          negative = (t \<noteq> [] \<and> hd t = CHR ''-'');
          body = (if t \<noteq> [] \<and> (hd t = CHR ''-'' \<or> hd t = CHR ''+'') then tl t else t)
      in if digitpart body \<and> int (length (filter is_digit body)) \<le> max_str_digits
         then Some (if negative then - digitpart_val body else digitpart_val body)
         else None)"

section \<open>Band selection\<close>

subsection \<open>Ordering of band file names\<close>

text \<open>
  \<^verbatim>\<open>sort_list_of_bands\<close> sorts with the key
  \<^verbatim>\<open>(int(t) if t.isdigit() else float('inf'), item)\<close>, where
  \<^verbatim>\<open>t = item.partition('_B')[2].partition('.')[0]\<close>. A token that \<^verbatim>\<open>isdigit\<close> accepts has no
  sign, so the first component is a natural number or infinity (\<^typ>\<open>enat\<close>); \<^verbatim>\<open>int\<close> raises
  \<^verbatim>\<open>ValueError\<close> on a token that \<^verbatim>\<open>isdigit\<close> accepts and that is not made of decimal digits or
  has too many of them.
  Python compares the tuples lexicographically and the strings by code point, which is
  the order of \<^typ>\<open>enat \<times> string\<close> here.
\<close>

definition band_token :: "string \<Rightarrow> string" where
  "band_token item = fst (partition_py ''.'' (snd (snd (partition_py ''_B'' item))))"

definition band_number :: "string \<Rightarrow> error + enat" where
  "band_number item =
     (if str_isdigit (band_token item)
      then (case py_int (band_token item) of
              None \<Rightarrow> Inl ValueError
            | Some n \<Rightarrow> Inr (enat (nat n)))
      else Inr \<infinity>)"

definition band_sort_key :: "string \<Rightarrow> error + enat \<times> string" where
  "band_sort_key item =
     (case band_number item of Inl e \<Rightarrow> Inl e | Inr number \<Rightarrow> Inr (number, item))"

text \<open>
  \<^verbatim>\<open>sorted(bands, key=...)\<close> computes the key of every item, in the order of the list, and
  then sorts the items by their keys, stably; an exception of a key ends the call.
\<close>

fun band_sort_keys :: "string list \<Rightarrow> error + (enat \<times> string) list" where
  "band_sort_keys [] = Inr []"
| "band_sort_keys (item # rest) =
     (case band_sort_key item of
        Inl e \<Rightarrow> Inl e
      | Inr k \<Rightarrow>
          (case band_sort_keys rest of
             Inl e \<Rightarrow> Inl e
           | Inr ks \<Rightarrow> Inr (k # ks)))"

definition sort_list_of_bands :: "string list \<Rightarrow> error + string list" where
  "sort_list_of_bands bands =
     (case band_sort_keys bands of
        Inl e \<Rightarrow> Inl e
      | Inr keys \<Rightarrow> Inr (map snd (sort_key fst (zip keys bands))))"

subsection \<open>Expansion of spectral sets\<close>

text \<open>
  \<^verbatim>\<open>retrieve_selected_sets_of_bands\<close> concatenates the bands of every selected set and
  returns \<^verbatim>\<open>list(set(requested_bands))\<close>. The table \<^verbatim>\<open>LANDSAT_BANDS\<close> is configuration of the
  module \<^verbatim>\<open>identifiers\<close> and a parameter here; a set name that is not a key raises
  \<^verbatim>\<open>KeyError\<close>. The iteration order of a Python set is not specified: it is the parameter
  \<open>set_order\<close>, which rearranges the distinct elements.
\<close>

fun extend_bands :: "(string \<rightharpoonup> 'b list) \<Rightarrow> string list \<Rightarrow> 'b list \<Rightarrow> error + 'b list" where
  "extend_bands LANDSAT_BANDS [] requested_bands = Inr requested_bands"
| "extend_bands LANDSAT_BANDS (spectral_set # rest) requested_bands =
     (case LANDSAT_BANDS spectral_set of
        None \<Rightarrow> Inl KeyError
      | Some bands \<Rightarrow> extend_bands LANDSAT_BANDS rest (requested_bands @ bands))"

definition retrieve_selected_sets_of_bands ::
  "('b list \<Rightarrow> 'b list) \<Rightarrow> (string \<rightharpoonup> 'b list) \<Rightarrow> string list \<Rightarrow> error + 'b list" where
  "retrieve_selected_sets_of_bands set_order LANDSAT_BANDS spectral_sets =
     (case extend_bands LANDSAT_BANDS spectral_sets [] of
        Inl e \<Rightarrow> Inl e
      | Inr requested_bands \<Rightarrow> Inr (set_order (remdups requested_bands)))"

section \<open>Scene and band identification\<close>

subsection \<open>Paths\<close>

text \<open>\<^verbatim>\<open>os.path.basename\<close>, \<^verbatim>\<open>os.path.join\<close> of two components and \<^verbatim>\<open>os.path.splitext\<close> (POSIX).\<close>

definition basename :: "string \<Rightarrow> string" where
  "basename p = rev (takeWhile (\<lambda>c. c \<noteq> CHR ''/'') (rev p))"

definition dirpart :: "string \<Rightarrow> string" where
  "dirpart p = rev (dropWhile (\<lambda>c. c \<noteq> CHR ''/'') (rev p))"

definition path_join :: "string \<Rightarrow> string \<Rightarrow> string" where
  "path_join a p =
     (if startswith p ''/'' then p
      else if a = [] \<or> endswith a ''/'' then a @ p
      else a @ ''/'' @ p)"

text \<open>What \<^verbatim>\<open>os.path.join\<close> puts before a relative second component.\<close>

definition join_prefix :: "string \<Rightarrow> string" where
  "join_prefix a = (if a = [] \<or> endswith a ''/'' then a else a @ ''/'')"

text \<open>
  The extension starts at the last dot of the last path component, unless only dots
  precede it there.
\<close>

definition splitext :: "string \<Rightarrow> string \<times> string" where
  "splitext p =
     (let b = basename p;
          upto_dot = rev (dropWhile (\<lambda>c. c \<noteq> CHR ''.'') (rev b));
          ext = rev (takeWhile (\<lambda>c. c \<noteq> CHR ''.'') (rev b))
      in if upto_dot = [] \<or> list_all (\<lambda>c. c = CHR ''.'') (butlast upto_dot)
         then (p, [])
         else (dirpart p @ butlast upto_dot, CHR ''.'' # ext))"

subsection \<open>The product collection of a scene\<close>

text \<open>
  \<^verbatim>\<open>LANDSAT_IDENTIFIERS['scene_template']\<close> is a dictionary of the module \<^verbatim>\<open>identifiers\<close>
  from collection keys to regular expressions; it is iterated in insertion order, so it is
  a list of pairs here, and a parameter. \<^verbatim>\<open>re.match(template, scene)\<close> is the parameter
  \<open>re_match\<close>: it finds a match, finds none, or raises (a template that is not a regular
  expression). \<^verbatim>\<open>identify_product_collection\<close> returns the first key whose template
  matches; when it raises inside the \<^verbatim>\<open>try\<close> the handler calls \<^verbatim>\<open>g.fatal\<close>; when the loop ends
  without a match the function returns \<^verbatim>\<open>None\<close>.
\<close>

datatype match_result = Match | NoMatch | Raises

fun identify_product_collection ::
  "('t \<Rightarrow> string \<Rightarrow> match_result) \<Rightarrow> (string \<times> 't) list \<Rightarrow> string \<Rightarrow> error + string option" where
  "identify_product_collection re_match [] scene = Inr None"
| "identify_product_collection re_match ((template_key, template) # rest) scene =
     (case re_match template scene of
        Match \<Rightarrow> Inr (Some template_key)
      | NoMatch \<Rightarrow> identify_product_collection re_match rest scene
      | Raises \<Rightarrow> Inl Fatal)"

text \<open>
  The first step of \<^verbatim>\<open>main\<close>: the collection of the scene's base name selects the band
  template; a failing lookup in \<^verbatim>\<open>LANDSAT_IDENTIFIERS['band_template']\<close> (its keys are
  collection names, so \<^verbatim>\<open>None\<close> is never one) is caught and turned into \<^verbatim>\<open>grass.fatal\<close>.
\<close>

definition main_band_template ::
  "('t \<Rightarrow> string \<Rightarrow> match_result) \<Rightarrow> (string \<times> 't) list \<Rightarrow> (string \<rightharpoonup> 'r) \<Rightarrow> string
     \<Rightarrow> error + 'r" where
  "main_band_template re_match scene_template band_template scene =
     (case identify_product_collection re_match scene_template (basename scene) of
        Inl e \<Rightarrow> Inl e
      | Inr None \<Rightarrow> Inl Fatal
      | Inr (Some product_collection) \<Rightarrow>
          (case band_template product_collection of
             None \<Rightarrow> Inl Fatal
           | Some regular_expression_template \<Rightarrow> Inr regular_expression_template))"

subsection \<open>Name and band of a file\<close>

text \<open>
  \<^verbatim>\<open>get_name_band\<close> returns the map name and the band, which is an integer or, for the
  quality layer, the name itself. \<^verbatim>\<open>IMAGE_QUALITY_STRINGS\<close>, \<^verbatim>\<open>MTL_STRING\<close> and \<^verbatim>\<open>QA_STRING\<close> are
  constants of the module \<^verbatim>\<open>constants\<close> and parameters here.
\<close>

datatype band_id = IntBand int | StrBand string

definition int_band :: "string \<Rightarrow> error + band_id" where
  "int_band s = (case py_int s of None \<Rightarrow> Inl ValueError | Some i \<Rightarrow> Inr (IntBand i))"

definition get_name_band ::
  "string list \<Rightarrow> string \<Rightarrow> string \<Rightarrow> string \<Rightarrow> string \<Rightarrow> bool \<Rightarrow> error + (string \<times> band_id)" where
  "get_name_band IMAGE_QUALITY_STRINGS MTL_STRING QA_STRING scene filename single_mapset =
     (let absolute_filename = path_join scene filename;
          name = (if list_ex (\<lambda>string. contains string absolute_filename) IMAGE_QUALITY_STRINGS
                  then last (split_char CHR ''_'' (fst (splitext absolute_filename)))
                  else last (split_char CHR ''_'' (fst (splitext filename))));
          band =
            (if contains MTL_STRING absolute_filename then Inl Fatal
             else if contains QA_STRING absolute_filename then Inr (StrBand name)
             else if length name = 3 \<and> name ! 0 = CHR ''B'' \<and> last name = CHR ''0''
               then int_band (take 2 (drop 1 name))
             else if length name = 3 \<and> last name = CHR ''0''
               then int_band (take 1 (drop 1 name))
             else if length name = 3 \<and> last name \<noteq> CHR ''0''
               then int_band (take 2 (drop 1 name))
             else int_band (if name = [] then [] else [last name]))
      in case band of
           Inl e \<Rightarrow> Inl e
         | Inr b \<Rightarrow> Inr (if single_mapset then basename scene @ ''_'' @ name else name, b))"

text \<open>
  A stand-in for \<^verbatim>\<open>re.match\<close> on concrete inputs: the template is a literal prefix.
\<close>

definition prefix_match :: "string \<Rightarrow> string \<Rightarrow> match_result" where
  "prefix_match template scene = (if startswith scene template then Match else NoMatch)"

section \<open>Python floats\<close>

text \<open>
  A Python float is an IEEE 754 double. A finite double is kept exactly, as an integer
  mantissa and a binary exponent: \<open>Finite m e\<close> is the number \<open>m * 2 ^ e\<close>. Every
  operation computes the exact result and rounds it to the nearest double, ties to the
  even mantissa, as the hardware and CPython's correctly rounded conversions do.
\<close>

datatype pyfloat = Finite int int | Infinite bool | NaN

text \<open>The number of binary digits of a positive integer.\<close>

fun bit_length :: "int \<Rightarrow> nat" where
  "bit_length n = (if n \<le> 0 then 0 else Suc (bit_length (n div 2)))"

declare bit_length.simps [simp del]

text \<open>\<open>num / den\<close>, for \<open>0 \<le> num\<close> and \<open>0 < den\<close>, rounded to the nearest integer, ties to even.\<close>

definition round_half_even :: "int \<Rightarrow> int \<Rightarrow> int" where
  "round_half_even num den =
     (let q = num div den; r = num mod den
      in if 2 * r < den then q
         else if den < 2 * r then q + 1
         else if even q then q else q + 1)"

text \<open>
  \<open>floor_log2 num den\<close> is the integer \<open>k\<close> with \<open>2 ^ k \<le> num / den < 2 ^ (k + 1)\<close>, for
  positive \<open>num\<close> and \<open>den\<close>.
\<close>

definition floor_log2 :: "int \<Rightarrow> int \<Rightarrow> int" where
  "floor_log2 num den =
     (let k = int (bit_length num) - int (bit_length den)
      in if (if 0 \<le> k then den * 2 ^ nat k \<le> num else den \<le> num * 2 ^ nat (- k))
         then k else k - 1)"

text \<open>
  The double nearest to \<open>(num / den) * 2 ^ s\<close>, for \<open>0 \<le> num\<close> and \<open>0 < den\<close>, with the
  sign \<open>negative\<close>: 53 bits of mantissa, exponents from \<open>-1074\<close>, infinity from \<open>2 ^ 1024\<close>.
\<close>

definition round_to_double :: "bool \<Rightarrow> int \<Rightarrow> int \<Rightarrow> int \<Rightarrow> pyfloat" where
  "round_to_double negative num den s =
     (if num = 0 then Finite 0 0
      else
        let e = max (floor_log2 num den + s - 52) (- 1074);
            m = (if e \<le> s then round_half_even (num * 2 ^ nat (s - e)) den
                 else round_half_even num (den * 2 ^ nat (e - s)))
        in if 971 < e \<or> (e = 971 \<and> 2 ^ 53 \<le> m) then Infinite negative
           else Finite (if negative then - m else m) e)"

text \<open>The operations the script performs on floats.\<close>

definition float_of_int :: "int \<Rightarrow> pyfloat" where
  "float_of_int i = round_to_double (i < 0) \<bar>i\<bar> 1 0"

text \<open>\<^verbatim>\<open>x / 10000000\<close> and the other divisions by a positive integer.\<close>

definition float_div_int :: "pyfloat \<Rightarrow> int \<Rightarrow> pyfloat" where
  "float_div_int x d =
     (case x of
        Finite m e \<Rightarrow> round_to_double (m < 0) \<bar>m\<bar> d e
      | Infinite b \<Rightarrow> Infinite b
      | NaN \<Rightarrow> NaN)"

text \<open>\<open>x * 10 ^ 6\<close> rounded to an integer, ties to even: the decimal rounding of \<^verbatim>\<open>round(x, 6)\<close>
  and of \<^verbatim>\<open>format(x, '.6f')\<close>, with the sign apart.\<close>

definition micros :: "int \<Rightarrow> int \<Rightarrow> int" where
  "micros m e =
     (if 0 \<le> e then \<bar>m\<bar> * 1000000 * 2 ^ nat e
      else round_half_even (\<bar>m\<bar> * 1000000) (2 ^ nat (- e)))"

text \<open>\<^verbatim>\<open>round(x, 6)\<close>.\<close>

definition float_round6 :: "pyfloat \<Rightarrow> pyfloat" where
  "float_round6 x =
     (case x of
        Finite m e \<Rightarrow> round_to_double (m < 0) (micros m e) 1000000 0
      | Infinite b \<Rightarrow> Infinite b
      | NaN \<Rightarrow> NaN)"

text \<open>\<^verbatim>\<open>x + y\<close>.\<close>

definition float_add :: "pyfloat \<Rightarrow> pyfloat \<Rightarrow> pyfloat" where
  "float_add x y =
     (case (x, y) of
        (Finite m e, Finite n f) \<Rightarrow>
          (let g = min e f; total = m * 2 ^ nat (e - g) + n * 2 ^ nat (f - g)
           in round_to_double (total < 0) \<bar>total\<bar> 1 g)
      | (Finite m e, y') \<Rightarrow> y'
      | (NaN, y') \<Rightarrow> NaN
      | (Infinite b, Finite n f) \<Rightarrow> Infinite b
      | (Infinite b, Infinite c) \<Rightarrow> (if b = c then Infinite b else NaN)
      | (Infinite b, NaN) \<Rightarrow> NaN)"

text \<open>\<^verbatim>\<open>x < 10\<close> and the like, for an integer bound; a comparison with NaN is false.\<close>

definition float_less_int :: "pyfloat \<Rightarrow> int \<Rightarrow> bool" where
  "float_less_int x b =
     (case x of
        Finite m e \<Rightarrow> (if 0 \<le> e then m * 2 ^ nat e < b else m < b * 2 ^ nat (- e))
      | Infinite negative \<Rightarrow> negative
      | NaN \<Rightarrow> False)"

subsection \<open>Decimal digits\<close>

definition digit_char :: "int \<Rightarrow> char" where
  "digit_char d = ''0123456789'' ! nat d"

function digits_of :: "int \<Rightarrow> string" where
  "digits_of n = (if n < 10 then [digit_char n] else digits_of (n div 10) @ [digit_char (n mod 10)])"
  by pat_completeness auto
termination
  by (relation "measure nat") auto

declare digits_of.simps [simp del]

text \<open>\<^verbatim>\<open>s.zfill(n)\<close>: zeros are put after a leading sign.\<close>

definition zfill :: "string \<Rightarrow> nat \<Rightarrow> string" where
  "zfill s n =
     (if n \<le> length s then s
      else if s \<noteq> [] \<and> (hd s = CHR ''+'' \<or> hd s = CHR ''-'')
        then hd s # replicate (n - length s) CHR ''0'' @ tl s
      else replicate (n - length s) CHR ''0'' @ s)"

text \<open>\<^verbatim>\<open>format(x, '.6f')\<close>. A double that is zero comes from the sum of an integer and a double
  in the script and is positive zero, so a zero is written without a sign.\<close>

definition format_6f :: "pyfloat \<Rightarrow> string" where
  "format_6f x =
     (case x of
        Finite m e \<Rightarrow>
          (let t = micros m e
           in (if m < 0 then ''-'' else [])
              @ digits_of (t div 1000000) @ ''.''
              @ zfill (digits_of (t mod 1000000)) 6)
      | Infinite negative \<Rightarrow> (if negative then ''-inf'' else ''inf'')
      | NaN \<Rightarrow> ''nan'')"

text \<open>\<^verbatim>\<open>format(i, '02d')\<close> for an integer.\<close>

definition format_02d :: "int \<Rightarrow> string" where
  "format_02d i = (if i < 0 then CHR ''-'' # zfill (digits_of (- i)) 2 else zfill (digits_of i) 2)"

subsection \<open>\<^verbatim>\<open>float(...)\<close> on a string\<close>

text \<open>
  \<^verbatim>\<open>float(s)\<close> strips white space as \<^verbatim>\<open>int\<close> does and accepts a sign followed by \<^verbatim>\<open>inf\<close>, \<^verbatim>\<open>infinity\<close> or
  \<^verbatim>\<open>nan\<close> in any case, or by a decimal number: digits (grouped by single underscores) with
  an optional fraction and an optional exponent. Anything else raises \<^verbatim>\<open>ValueError\<close>
  (\<open>None\<close>).
\<close>

definition lower :: "char \<Rightarrow> char" where
  "lower c = (if CHR ''A'' \<le> c \<and> c \<le> CHR ''Z'' then char_of (of_char c + (32::nat)) else c)"

definition exponent_val :: "string \<Rightarrow> int option" where
  "exponent_val s =
     (let body = (if s \<noteq> [] \<and> (hd s = CHR ''-'' \<or> hd s = CHR ''+'') then tl s else s)
      in if digitpart body
         then Some (if s \<noteq> [] \<and> hd s = CHR ''-'' then - digitpart_val body
                    else digitpart_val body)
         else None)"

definition mantissa_val :: "string \<Rightarrow> (int \<times> nat) option" where
  "mantissa_val s =
     (case split_first ''.'' s of
        None \<Rightarrow> (if digitpart s then Some (digitpart_val s, 0) else None)
      | Some (ip, fp) \<Rightarrow>
          (if (ip = [] \<or> digitpart ip) \<and> (fp = [] \<or> digitpart fp) \<and> \<not> (ip = [] \<and> fp = [])
           then Some (digitpart_val (ip @ fp), length (filter is_digit fp))
           else None))"

definition py_float :: "string \<Rightarrow> pyfloat option" where
  "py_float s =
     (let t = strip_with is_py_space s;
          negative = (t \<noteq> [] \<and> hd t = CHR ''-'');
          u = map lower (if t \<noteq> [] \<and> (hd t = CHR ''-'' \<or> hd t = CHR ''+'') then tl t else t)
      in if u = ''inf'' \<or> u = ''infinity'' then Some (Infinite negative)
         else if u = ''nan'' then Some NaN
         else
           (let (mant, ex) = (case split_first ''e'' u of
                                None \<Rightarrow> (u, Some 0)
                              | Some (a, b) \<Rightarrow> (a, exponent_val b))
            in case (mantissa_val mant, ex) of
                 (Some (n, fd), Some x) \<Rightarrow>
                   (let p = x - int fd
                    in Some (if 0 \<le> p then round_to_double negative (n * 10 ^ nat p) 1 0
                             else round_to_double negative n (10 ^ nat (- p)) 0))
               | _ \<Rightarrow> None))"

section \<open>Timestamps\<close>

subsection \<open>\<^verbatim>\<open>datetime.strptime\<close> and \<^verbatim>\<open>strftime\<close>\<close>

text \<open>
  \<^verbatim>\<open>strptime\<close> turns the format into a regular expression, matches it at the start of the
  string and wants the whole string consumed; then the values must form a date or a time.
  The directives used are \<^verbatim>\<open>%Y\<close> (four digits), \<^verbatim>\<open>%m\<close> (1 to 12, one or two digits), \<^verbatim>\<open>%d\<close>
  (1 to 31, one or two digits, or a space and a digit), \<^verbatim>\<open>%H\<close> (0 to 23), \<^verbatim>\<open>%M\<close> (0 to 59),
  \<^verbatim>\<open>%S\<close> (0 to 61 for the expression, 0 to 59 for the time) and \<^verbatim>\<open>%f\<close> (one to six digits).
  Failure is \<^verbatim>\<open>ValueError\<close>, \<open>None\<close> here.
\<close>

definition number_token :: "nat \<Rightarrow> int \<Rightarrow> int \<Rightarrow> string \<Rightarrow> bool" where
  "number_token width lo hi s =
     (isdigit s \<and> length s \<le> width \<and> lo \<le> digits_to_int s \<and> digits_to_int s \<le> hi)"

definition day_token :: "string \<Rightarrow> bool" where
  "day_token s =
     (number_token 2 1 31 s
      \<or> (length s = 2 \<and> hd s = CHR '' '' \<and> number_token 1 1 9 (tl s)))"

definition leap_year :: "int \<Rightarrow> bool" where
  "leap_year y = (y mod 4 = 0 \<and> (y mod 100 \<noteq> 0 \<or> y mod 400 = 0))"

definition days_in_month :: "int \<Rightarrow> int \<Rightarrow> int" where
  "days_in_month y m =
     (if m = 2 then (if leap_year y then 29 else 28)
      else if m \<in> {4, 6, 9, 11} then 30 else 31)"

text \<open>\<^verbatim>\<open>datetime.strptime(s, '%Y-%m-%d')\<close>: year, month, day.\<close>

definition strptime_date :: "string \<Rightarrow> (int \<times> int \<times> int) option" where
  "strptime_date s =
     (let y = take 4 s
      in if length y = 4 \<and> isdigit y \<and> take 1 (drop 4 s) = ''-''
         then (case split_first ''-'' (drop 5 s) of
                 None \<Rightarrow> None
               | Some (m, d) \<Rightarrow>
                   (if number_token 2 1 12 m \<and> day_token d
                    then (let year = digits_to_int y; month = digits_to_int m;
                              day = digits_to_int (filter is_digit d)
                          in if 1 \<le> year \<and> day \<le> days_in_month year month
                             then Some (year, month, day) else None)
                    else None))
         else None)"

text \<open>\<^verbatim>\<open>datetime.strptime(s, '%H:%M:%S')\<close> and \<^verbatim>\<open>datetime.strptime(s, '%H:%M:%S.%f')\<close>: hour,
  minute, second, microsecond.\<close>

definition strptime_HMS :: "string \<Rightarrow> (int \<times> int \<times> int \<times> int) option" where
  "strptime_HMS s =
     (case split_char CHR '':'' s of
        [h, m, sec] \<Rightarrow>
          (if number_token 2 0 23 h \<and> number_token 2 0 59 m \<and> number_token 2 0 61 sec
              \<and> digits_to_int sec \<le> 59
           then Some (digits_to_int h, digits_to_int m, digits_to_int sec, 0)
           else None)
      | _ \<Rightarrow> None)"

definition strptime_HMSf :: "string \<Rightarrow> (int \<times> int \<times> int \<times> int) option" where
  "strptime_HMSf s =
     (case split_char CHR '':'' s of
        [h, m, rest] \<Rightarrow>
          (case split_char CHR ''.'' rest of
             [sec, f] \<Rightarrow>
               (if number_token 2 0 23 h \<and> number_token 2 0 59 m \<and> number_token 2 0 61 sec
                   \<and> digits_to_int sec \<le> 59 \<and> isdigit f \<and> length f \<le> 6
                then Some (digits_to_int h, digits_to_int m, digits_to_int sec,
                           digits_to_int (f @ replicate (6 - length f) CHR ''0''))
                else None)
           | _ \<Rightarrow> None)
      | _ \<Rightarrow> None)"

text \<open>\<^verbatim>\<open>strftime\<close> with \<^verbatim>\<open>'%H:%M:%S.%f'\<close> and with \<^verbatim>\<open>'%d %b %Y'\<close> (month names of the C locale; the
  year as the C library prints it, without padding).\<close>

definition strftime_HMSf :: "int \<times> int \<times> int \<times> int \<Rightarrow> string" where
  "strftime_HMSf t =
     (case t of (h, m, s, f) \<Rightarrow>
        zfill (digits_of h) 2 @ '':'' @ zfill (digits_of m) 2 @ '':'' @ zfill (digits_of s) 2
        @ ''.'' @ zfill (digits_of f) 6)"

definition month_abbreviation :: "int \<Rightarrow> string" where
  "month_abbreviation m =
     [''Jan'', ''Feb'', ''Mar'', ''Apr'', ''May'', ''Jun'',
      ''Jul'', ''Aug'', ''Sep'', ''Oct'', ''Nov'', ''Dec''] ! nat (m - 1)"

definition strftime_dbY :: "int \<times> int \<times> int \<Rightarrow> string" where
  "strftime_dbY t =
     (case t of (y, m, d) \<Rightarrow>
        zfill (digits_of d) 2 @ '' '' @ month_abbreviation m @ '' '' @ digits_of y)"

subsection \<open>Validation\<close>

definition validate_date_string :: "string \<Rightarrow> error + unit" where
  "validate_date_string date_string =
     (case strptime_date date_string of None \<Rightarrow> Inl ValueError | Some _ \<Rightarrow> Inr ())"

definition validate_time_string :: "string \<Rightarrow> error + unit" where
  "validate_time_string time_string =
     (case (if CHR ''.'' \<in> set time_string then strptime_HMSf time_string
            else strptime_HMS time_string) of
        None \<Rightarrow> Inl ValueError
      | Some _ \<Rightarrow> Inr ())"

text \<open>\<^verbatim>\<open>add_leading_zeroes\<close>: the part before the first dot is filled with zeros; a string
  without a dot has no \<^verbatim>\<open>bits[1]\<close>.\<close>

definition add_leading_zeroes :: "string \<Rightarrow> nat \<Rightarrow> error + string" where
  "add_leading_zeroes real_number n =
     (case split_char CHR ''.'' real_number of
        bits0 # bits1 # _ \<Rightarrow> Inr (zfill bits0 n @ ''.'' @ bits1)
      | _ \<Rightarrow> Inl IndexError)"

subsection \<open>Values and seconds\<close>

text \<open>\<^verbatim>\<open>str.strip()\<close> removes the white space of \<^verbatim>\<open>str.isspace\<close>: below \<open>U+0100\<close> the ASCII
  white space, the separators \<open>U+001C\<close> to \<open>U+001F\<close>, \<open>U+0085\<close> and \<open>U+00A0\<close>.\<close>

definition is_str_space :: "char \<Rightarrow> bool" where
  "is_str_space c =
     (c \<in> {CHR 0x09, CHR 0x0A, CHR 0x0B, CHR 0x0C, CHR 0x0D,
            CHR 0x1C, CHR 0x1D, CHR 0x1E, CHR 0x1F, CHR 0x20, CHR 0x85, CHR 0xA0})"

definition strip :: "string \<Rightarrow> string" where
  "strip s = strip_with is_str_space s"

definition rstrip_newline :: "string \<Rightarrow> string" where
  "rstrip_newline s = rev (dropWhile (\<lambda>c. c = CHR 0x0A) (rev s))"

text \<open>\<^verbatim>\<open>line.strip().split('=')[1].strip()\<close>.\<close>

definition value_of_line :: "string \<Rightarrow> error + string" where
  "value_of_line line =
     (case split_char CHR ''='' (strip line) of
        _ # v # _ \<Rightarrow> Inr (strip v)
      | _ \<Rightarrow> Inl IndexError)"

text \<open>
  Lines 85 to 94 of \<^verbatim>\<open>timestamp.py\<close> (540 to 549 of the script): the digits after the first
  dot of the time, as a float, are divided by 10000000 and rounded to six decimals; the sum
  with the integer seconds is written with six decimals and at least two digits before the
  dot.
\<close>

definition seconds_with_microseconds :: "string \<Rightarrow> string \<Rightarrow> error + string" where
  "seconds_with_microseconds time seconds =
     (case split_char CHR ''.'' time of
        _ # fraction # _ \<Rightarrow>
          (case py_float fraction of
             None \<Rightarrow> Inl ValueError
           | Some microseconds \<Rightarrow>
               (case py_int seconds of
                  None \<Rightarrow> Inl ValueError
                | Some i \<Rightarrow>
                    (case float_of_int i of
                       Finite m e \<Rightarrow>
                         add_leading_zeroes
                           (format_6f (float_add (Finite m e)
                              (float_round6 (float_div_int microseconds 10000000)))) 2
                     | _ \<Rightarrow> Inl OverflowError)))
      | _ \<Rightarrow> Inl IndexError)"

text \<open>Lines 96 and 97 (551 and 552): below ten, only the part before the dot is kept.\<close>

definition drop_fraction_below_ten :: "string \<Rightarrow> error + string" where
  "drop_fraction_below_ten seconds =
     (case py_float seconds of
        None \<Rightarrow> Inl ValueError
      | Some x \<Rightarrow>
          Inr (if float_less_int x 10 then hd (split_char CHR ''.'' seconds) else seconds))"

subsection \<open>Parsing the metadata file\<close>

text \<open>
  The dictionary \<^verbatim>\<open>date_time\<close> only ever gets the keys \<^verbatim>\<open>date\<close>, \<^verbatim>\<open>hours\<close>, \<^verbatim>\<open>minutes\<close>, \<^verbatim>\<open>seconds\<close>
  and \<^verbatim>\<open>timezone\<close>: it is a record of optional strings, \<open>None\<close> for an absent key.
\<close>

record date_time =
  date :: "string option"
  hours :: "string option"
  minutes :: "string option"
  seconds :: "string option"
  timezone :: "string option"

definition empty_date_time :: date_time where
  "empty_date_time =
     \<lparr>date = None, hours = None, minutes = None, seconds = None, timezone = None\<rparr>"

text \<open>The body of the loop for a line that carries a time key (lines 70 to 106).\<close>

definition time_of_line ::
  "bool \<Rightarrow> string \<Rightarrow> date_time \<Rightarrow> string \<Rightarrow> error + date_time" where
  "time_of_line skip_microseconds ZERO_TIMEZONE date_time line0 =
     (let line = filter (\<lambda>c. c \<noteq> CHR 0x22) line0;
          date_time1 = (if endswith line ''Z'' then date_time\<lparr>timezone := Some ZERO_TIMEZONE\<rparr>
                        else date_time)
      in case value_of_line line of
           Inl e \<Rightarrow> Inl e
         | Inr v \<Rightarrow>
             (let time = filter (\<lambda>c. c \<noteq> CHR ''Z'') v
              in case split_char CHR '':'' (hd (split_char CHR ''.'' time)) of
                   [hours_s, minutes_s, seconds_s] \<Rightarrow>
                     (case (if \<not> skip_microseconds then seconds_with_microseconds time seconds_s
                            else Inr seconds_s) of
                        Inl e \<Rightarrow> Inl e
                      | Inr seconds1 \<Rightarrow>
                          (case drop_fraction_below_ten seconds1 of
                             Inl e \<Rightarrow> Inl e
                           | Inr seconds2 \<Rightarrow>
                               (case validate_time_string
                                       (join '':'' [hours_s, minutes_s, seconds2]) of
                                  Inl e \<Rightarrow> Inl e
                                | Inr _ \<Rightarrow>
                                    (case (py_int hours_s, py_int minutes_s) of
                                       (Some h, Some m) \<Rightarrow>
                                         Inr (date_time1\<lparr>hours := Some (format_02d h),
                                                minutes := Some (format_02d m),
                                                seconds := Some seconds2\<rparr>)
                                     | _ \<Rightarrow> Inl ValueError))))
                 | _ \<Rightarrow> Inl ValueError))"

text \<open>The body of the loop for one line (lines 57 to 106).\<close>

definition process_line ::
  "bool \<Rightarrow> string list \<Rightarrow> string list \<Rightarrow> string \<Rightarrow> date_time \<Rightarrow> string \<Rightarrow> error + date_time" where
  "process_line skip_microseconds DATE_STRINGS TIME_STRINGS ZERO_TIMEZONE date_time line0 =
     (let line = rstrip_newline line0
      in if length line = 0 then Inr date_time
         else
           case (if list_ex (\<lambda>x. contains x line) DATE_STRINGS
                 then (case value_of_line line of
                         Inl e \<Rightarrow> Inl e
                       | Inr d \<Rightarrow>
                           (case validate_date_string d of
                              Inl e \<Rightarrow> Inl e
                            | Inr _ \<Rightarrow> Inr (date_time\<lparr>date := Some d\<rparr>)))
                 else Inr date_time) of
             Inl e \<Rightarrow> Inl e
           | Inr date_time1 \<Rightarrow>
               (if list_ex (\<lambda>x. contains x line) TIME_STRINGS
                then time_of_line skip_microseconds ZERO_TIMEZONE date_time1 line
                else Inr date_time1))"

fun process_lines ::
  "bool \<Rightarrow> string list \<Rightarrow> string list \<Rightarrow> string \<Rightarrow> date_time \<Rightarrow> string list \<Rightarrow> error + date_time" where
  "process_lines skip_microseconds DATE_STRINGS TIME_STRINGS ZERO_TIMEZONE date_time [] =
     Inr date_time"
| "process_lines skip_microseconds DATE_STRINGS TIME_STRINGS ZERO_TIMEZONE date_time (line # rest) =
     (case process_line skip_microseconds DATE_STRINGS TIME_STRINGS ZERO_TIMEZONE date_time line of
        Inl e \<Rightarrow> Inl e
      | Inr date_time1 \<Rightarrow>
          process_lines skip_microseconds DATE_STRINGS TIME_STRINGS ZERO_TIMEZONE date_time1 rest)"

subsection \<open>Files\<close>

text \<open>
  The file system maps a path to the text of a file as text mode delivers it (newlines
  translated), or to a file whose content cannot be decoded, so that reading raises. The
  world also records the handles that are open. \<^verbatim>\<open>readlines\<close> cuts the text after every
  newline.
\<close>

datatype file_content = Text string | Undecodable

record world =
  files :: "string \<rightharpoonup> file_content"
  open_handles :: "nat list"
  next_handle :: nat

definition open_file :: "string \<Rightarrow> world \<Rightarrow> (error + nat) \<times> world" where
  "open_file path w =
     (case files w path of
        None \<Rightarrow> (Inl FileNotFoundError, w)
      | Some _ \<Rightarrow>
          (Inr (next_handle w),
           w\<lparr>open_handles := next_handle w # open_handles w, next_handle := Suc (next_handle w)\<rparr>))"

definition close_file :: "nat \<Rightarrow> world \<Rightarrow> world" where
  "close_file h w = w\<lparr>open_handles := removeAll h (open_handles w)\<rparr>"

fun readlines_text :: "string \<Rightarrow> string \<Rightarrow> string list" where
  "readlines_text acc [] = (if acc = [] then [] else [rev acc])"
| "readlines_text acc (c # cs) =
     (if c = CHR 0x0A then rev (c # acc) # readlines_text [] cs
      else readlines_text (c # acc) cs)"

definition readlines :: "file_content \<Rightarrow> error + string list" where
  "readlines f = (case f of Text s \<Rightarrow> Inr (readlines_text [] s) | Undecodable \<Rightarrow> Inl ReadError)"

subsection \<open>\<^verbatim>\<open>get_timestamp\<close>\<close>

text \<open>
  \<^verbatim>\<open>get_timestamp\<close> of \<^verbatim>\<open>timestamp.py\<close>. The path of the metadata file comes from \<^verbatim>\<open>get_metafile\<close>
  of the module \<^verbatim>\<open>metadata\<close>, a parameter that may fail; \<^verbatim>\<open>DATE_STRINGS\<close>, \<^verbatim>\<open>TIME_STRINGS\<close> and
  \<^verbatim>\<open>ZERO_TIMEZONE\<close> are constants of the module \<^verbatim>\<open>constants\<close> and parameters too. The file is
  opened inside \<^verbatim>\<open>try\<close> and closed in \<^verbatim>\<open>finally\<close>; when \<^verbatim>\<open>open\<close> raises, the name \<^verbatim>\<open>metadata\<close> is
  not bound and the \<^verbatim>\<open>finally\<close> clause itself raises \<^verbatim>\<open>UnboundLocalError\<close>.
\<close>

definition get_timestamp ::
  "(string \<Rightarrow> error + string) \<Rightarrow> string list \<Rightarrow> string list \<Rightarrow> string \<Rightarrow> string \<Rightarrow> bool
     \<Rightarrow> world \<Rightarrow> (error + date_time) \<times> world" where
  "get_timestamp get_metafile DATE_STRINGS TIME_STRINGS ZERO_TIMEZONE scene skip_microseconds w =
     (case get_metafile scene of
        Inl e \<Rightarrow> (Inl e, w)
      | Inr metafile \<Rightarrow>
          (case open_file metafile w of
             (Inl e, w1) \<Rightarrow> (Inl UnboundLocalError, w1)
           | (Inr metadata, w1) \<Rightarrow>
               (let result =
                      (case readlines (the (files w1 metafile)) of
                         Inl e \<Rightarrow> Inl e
                       | Inr lines \<Rightarrow>
                           process_lines skip_microseconds DATE_STRINGS TIME_STRINGS ZERO_TIMEZONE
                             empty_date_time lines)
                in (result, close_file metadata w1))))"

subsection \<open>\<^verbatim>\<open>get_timestamp\<close> of the script\<close>

text \<open>
  The script \<^verbatim>\<open>i.landsat.import.py\<close> has its own \<^verbatim>\<open>get_timestamp\<close>, with the same loop. There
  the name \<^verbatim>\<open>skip_microseconds\<close> of line 540 is not a parameter: it is bound only as a local
  name of \<^verbatim>\<open>main\<close> (line 833) and not in the module, so reading it raises \<^verbatim>\<open>NameError\<close>. A
  line that carries a time key therefore never gets beyond line 540: the statements before
  it raise \<^verbatim>\<open>IndexError\<close> or \<^verbatim>\<open>ValueError\<close> as in \<^verbatim>\<open>timestamp.py\<close>, and after them the test
  raises.
\<close>

definition time_of_line_script :: "string \<Rightarrow> date_time \<Rightarrow> string \<Rightarrow> error + date_time" where
  "time_of_line_script ZERO_TIMEZONE date_time line0 =
     (let line = filter (\<lambda>c. c \<noteq> CHR 0x22) line0;
          date_time1 = (if endswith line ''Z'' then date_time\<lparr>timezone := Some ZERO_TIMEZONE\<rparr>
                        else date_time)
      in case value_of_line line of
           Inl e \<Rightarrow> Inl e
         | Inr v \<Rightarrow>
             (let time = filter (\<lambda>c. c \<noteq> CHR ''Z'') v
              in case split_char CHR '':'' (hd (split_char CHR ''.'' time)) of
                   [hours_s, minutes_s, seconds_s] \<Rightarrow> Inl NameError
                 | _ \<Rightarrow> Inl ValueError))"

definition process_line_script ::
  "string list \<Rightarrow> string list \<Rightarrow> string \<Rightarrow> date_time \<Rightarrow> string \<Rightarrow> error + date_time" where
  "process_line_script DATE_STRINGS TIME_STRINGS ZERO_TIMEZONE date_time line0 =
     (let line = rstrip_newline line0
      in if length line = 0 then Inr date_time
         else
           case (if list_ex (\<lambda>x. contains x line) DATE_STRINGS
                 then (case value_of_line line of
                         Inl e \<Rightarrow> Inl e
                       | Inr d \<Rightarrow>
                           (case validate_date_string d of
                              Inl e \<Rightarrow> Inl e
                            | Inr _ \<Rightarrow> Inr (date_time\<lparr>date := Some d\<rparr>)))
                 else Inr date_time) of
             Inl e \<Rightarrow> Inl e
           | Inr date_time1 \<Rightarrow>
               (if list_ex (\<lambda>x. contains x line) TIME_STRINGS
                then time_of_line_script ZERO_TIMEZONE date_time1 line
                else Inr date_time1))"

fun process_lines_script ::
  "string list \<Rightarrow> string list \<Rightarrow> string \<Rightarrow> date_time \<Rightarrow> string list \<Rightarrow> error + date_time" where
  "process_lines_script DATE_STRINGS TIME_STRINGS ZERO_TIMEZONE date_time [] = Inr date_time"
| "process_lines_script DATE_STRINGS TIME_STRINGS ZERO_TIMEZONE date_time (line # rest) =
     (case process_line_script DATE_STRINGS TIME_STRINGS ZERO_TIMEZONE date_time line of
        Inl e \<Rightarrow> Inl e
      | Inr date_time1 \<Rightarrow>
          process_lines_script DATE_STRINGS TIME_STRINGS ZERO_TIMEZONE date_time1 rest)"

text \<open>
  The function first tests the option \<^verbatim>\<open>timestamp\<close>, whose value is returned as it is when it
  is not empty; otherwise it reads the metadata file, which \<^verbatim>\<open>get_metafile\<close> is asked for with
  the scene and the flag \<^verbatim>\<open>tgis\<close>. The result is a dictionary or a string.
\<close>

datatype timestamp = Parsed date_time | Manual string

definition get_timestamp_script ::
  "string \<Rightarrow> (string \<Rightarrow> bool \<Rightarrow> error + string) \<Rightarrow> string list \<Rightarrow> string list \<Rightarrow> string
     \<Rightarrow> string \<Rightarrow> bool \<Rightarrow> world \<Rightarrow> (error + timestamp) \<times> world" where
  "get_timestamp_script options_timestamp get_metafile DATE_STRINGS TIME_STRINGS ZERO_TIMEZONE
       scene tgis w =
     (if options_timestamp \<noteq> [] then (Inr (Manual options_timestamp), w)
      else
        (case get_metafile scene tgis of
           Inl e \<Rightarrow> (Inl e, w)
         | Inr metafile \<Rightarrow>
             (case open_file metafile w of
                (Inl e, w1) \<Rightarrow> (Inl UnboundLocalError, w1)
              | (Inr metadata, w1) \<Rightarrow>
                  (let result =
                         (case readlines (the (files w1 metafile)) of
                            Inl e \<Rightarrow> Inl e
                          | Inr lines \<Rightarrow>
                              (case process_lines_script DATE_STRINGS TIME_STRINGS ZERO_TIMEZONE
                                      empty_date_time lines of
                                 Inl e \<Rightarrow> Inl e
                               | Inr date_time \<Rightarrow> Inr (Parsed date_time)))
                   in (result, close_file metadata w1)))))"

subsection \<open>The report of a timestamp\<close>

text \<open>
  \<^verbatim>\<open>print_timestamp\<close> of the script. It indexes the timestamp as a dictionary, so a manual
  timestamp, a string, raises \<^verbatim>\<open>TypeError\<close>, and an absent key raises \<^verbatim>\<open>KeyError\<close>. Without \<^verbatim>\<open>-t\<close>
  the result is the message handed to \<^verbatim>\<open>g.message\<close>. With \<^verbatim>\<open>-t\<close> the function reads the name
  \<^verbatim>\<open>GRASS_VERBOSITY_LELVEL_3\<close> (line 597), which the script neither defines nor imports, and
  raises \<^verbatim>\<open>NameError\<close>: the line for the catalog (lines 599 to 609) is never built.
\<close>

definition TAB :: string where
  "TAB = [CHR 0x09]"

definition NEWLINE :: string where
  "NEWLINE = [CHR 0x0A]"

definition lookup :: "string option \<Rightarrow> error + string" where
  "lookup field = (case field of None \<Rightarrow> Inl KeyError | Some v \<Rightarrow> Inr v)"

definition print_timestamp :: "string \<Rightarrow> timestamp \<Rightarrow> bool \<Rightarrow> error + string" where
  "print_timestamp scene timestamp tgis =
     (case timestamp of
        Manual _ \<Rightarrow> Inl TypeError
      | Parsed t \<Rightarrow>
          (case lookup (date t) of
             Inl e \<Rightarrow> Inl e
           | Inr date_v \<Rightarrow>
          (case strptime_date date_v of
             None \<Rightarrow> Inl ValueError
           | Some date_Ymd \<Rightarrow>
          (case lookup (hours t) of
             Inl e \<Rightarrow> Inl e
           | Inr hours_v \<Rightarrow>
          (case lookup (minutes t) of
             Inl e \<Rightarrow> Inl e
           | Inr minutes_v \<Rightarrow>
          (case lookup (seconds t) of
             Inl e \<Rightarrow> Inl e
           | Inr seconds_v \<Rightarrow>
          (case lookup (timezone t) of
             Inl e \<Rightarrow> Inl e
           | Inr timezone_v \<Rightarrow>
               (let date_tgis = strftime_dbY date_Ymd;
                    time0 = join '':'' [hours_v, minutes_v, seconds_v];
                    time1 = (if CHR ''.'' \<notin> set time0 then time0 @ ''.000000'' else time0)
                in case (if CHR ''.'' \<in> set time1 then strptime_HMSf time1
                         else strptime_HMS time1) of
                     None \<Rightarrow> Inl ValueError
                   | Some parsed \<Rightarrow>
                       (let time = strftime_HMSf parsed
                        in if tgis then Inl NameError
                           else Inr (''Date'' @ TAB @ TAB @ ''Time'' @ NEWLINE
                                     @ TAB @ date_v @ TAB @ time @ '' '' @ timezone_v
                                     @ NEWLINE @ NEWLINE))))))))))"

subsection \<open>The timestamp of a raster map\<close>

text \<open>
  \<^verbatim>\<open>build_r_timestamp\<close> of \<^verbatim>\<open>timestamp.py\<close>, which is the first part of \<^verbatim>\<open>set_timestamp\<close> in the
  script: a dictionary becomes \<open>day month year hours:minutes:seconds\<close> with the month looked
  up in \<^verbatim>\<open>MONTHS\<close>, anything else is left as it is. \<^verbatim>\<open>MONTHS\<close> is a constant of the module
  \<^verbatim>\<open>constants\<close> and a parameter. A date without a hyphen leaves \<^verbatim>\<open>month\<close> unbound.
\<close>

definition build_r_timestamp :: "(string \<rightharpoonup> string) \<Rightarrow> timestamp \<Rightarrow> error + string" where
  "build_r_timestamp MONTHS timestamp =
     (case timestamp of
        Manual s \<Rightarrow> Inr s
      | Parsed t \<Rightarrow>
          (case lookup (date t) of
             Inl e \<Rightarrow> Inl e
           | Inr date_v \<Rightarrow>
               (if CHR ''-'' \<in> set date_v
                then (case split_char CHR ''-'' date_v of
                        [year, month, day] \<Rightarrow>
                          (case MONTHS month of
                             None \<Rightarrow> Inl KeyError
                           | Some month_name \<Rightarrow>
                          (case lookup (hours t) of
                             Inl e \<Rightarrow> Inl e
                           | Inr hours_v \<Rightarrow>
                          (case lookup (minutes t) of
                             Inl e \<Rightarrow> Inl e
                           | Inr minutes_v \<Rightarrow>
                          (case lookup (seconds t) of
                             Inl e \<Rightarrow> Inl e
                           | Inr seconds_v \<Rightarrow>
                               Inr (join '' '' [join '' '' [day, month_name, year],
                                                join '':'' [hours_v, minutes_v, seconds_v]])))))
                      | _ \<Rightarrow> Inl ValueError)
                else Inl UnboundLocalError)))"

text \<open>
  \<^verbatim>\<open>set_timestamp\<close> then runs \<^verbatim>\<open>r.timestamp\<close> of the raster store with the map and the string; the
  calls made to the store are a list.
\<close>

datatype store_call = R_timestamp string string

definition set_timestamp ::
  "(string \<rightharpoonup> string) \<Rightarrow> string \<Rightarrow> timestamp \<Rightarrow> store_call list \<Rightarrow> (error + unit) \<times> store_call list" where
  "set_timestamp MONTHS band timestamp calls =
     (case build_r_timestamp MONTHS timestamp of
        Inl e \<Rightarrow> (Inl e, calls)
      | Inr s \<Rightarrow> (Inr (), calls @ [R_timestamp band s]))"

text \<open>
  Modelled from the spec: the static table from the month number to the month name
  spelled out, which the store timestamp string uses (\<^verbatim>\<open>constants.MONTHS\<close> is not among the
  sources).
\<close>

definition MONTHS :: "string \<rightharpoonup> string" where
  "MONTHS = map_of
     [(''01'', ''January''), (''02'', ''February''), (''03'', ''March''), (''04'', ''April''),
      (''05'', ''May''), (''06'', ''June''), (''07'', ''July''), (''08'', ''August''),
      (''09'', ''September''), (''10'', ''October''), (''11'', ''November''),
      (''12'', ''December'')]"

subsection \<open>The start of \<^verbatim>\<open>import_geotiffs\<close>\<close>

text \<open>
  \<^verbatim>\<open>import_geotiffs\<close> first gets the timestamp of the scene and prints it (lines 683 and 684);
  what follows, the loop that imports the bands and stamps them with \<^verbatim>\<open>set_timestamp\<close>, is
  the parameter \<open>rest\<close>, which gets the timestamp and the world. An exception of the first
  two statements leaves the function before \<open>rest\<close>.
\<close>

definition import_geotiffs ::
  "string \<Rightarrow> (string \<Rightarrow> bool \<Rightarrow> error + string) \<Rightarrow> string list \<Rightarrow> string list \<Rightarrow> string
     \<Rightarrow> (timestamp \<Rightarrow> world \<Rightarrow> (error + 'a) \<times> world)
     \<Rightarrow> string \<Rightarrow> bool \<Rightarrow> world \<Rightarrow> (error + 'a) \<times> world" where
  "import_geotiffs options_timestamp get_metafile DATE_STRINGS TIME_STRINGS ZERO_TIMEZONE
       rest scene tgis w =
     (case get_timestamp_script options_timestamp get_metafile DATE_STRINGS TIME_STRINGS
             ZERO_TIMEZONE scene tgis w of
        (Inl e, w1) \<Rightarrow> (Inl e, w1)
      | (Inr timestamp, w1) \<Rightarrow>
          (case print_timestamp (basename scene) timestamp tgis of
             Inl e \<Rightarrow> (Inl e, w1)
           | Inr message \<Rightarrow> rest timestamp w1))"

subsection \<open>Constants of the metadata parser\<close>

text \<open>
  Modelled from the spec: the configured date key and time key of the metadata lines, which
  the spec gives in its example lines \<^verbatim>\<open>DATE_ACQUIRED = ...\<close> and \<^verbatim>\<open>SCENE_CENTER_TIME = ...\<close>
  (\<^verbatim>\<open>constants.DATE_STRINGS\<close> and \<^verbatim>\<open>constants.TIME_STRINGS\<close> are not among the sources).
\<close>

definition DATE_STRINGS :: "string list" where
  "DATE_STRINGS = [''DATE_ACQUIRED'']"

definition TIME_STRINGS :: "string list" where
  "TIME_STRINGS = [''SCENE_CENTER_TIME'']"

text \<open>
  Modelled from the spec: the zero offset \<^verbatim>\<open>+0000\<close> that a trailing \<^verbatim>\<open>Z\<close> stands for
  (\<^verbatim>\<open>constants.ZERO_TIMEZONE\<close> is not among the sources).
\<close>

definition ZERO_TIMEZONE :: string where
  "ZERO_TIMEZONE = ''+0000''"

subsection \<open>Lines that set a field\<close>

text \<open>A line that is not empty and carries one of the keys; a line whose text, without the
  quotes, ends with \<^verbatim>\<open>Z\<close>.\<close>

definition key_line :: "string list \<Rightarrow> string \<Rightarrow> bool" where
  "key_line keys l =
     (rstrip_newline l \<noteq> [] \<and> list_ex (\<lambda>x. contains x (rstrip_newline l)) keys)"

definition carries_Z :: "string \<Rightarrow> bool" where
  "carries_Z l = endswith (filter (\<lambda>c. c \<noteq> CHR 0x22) (rstrip_newline l)) ''Z''"

text \<open>A float that is not negative and not NaN.\<close>

definition nonneg_float :: "pyfloat \<Rightarrow> bool" where
  "nonneg_float x =
     (case x of Finite m e \<Rightarrow> 0 \<le> m | Infinite negative \<Rightarrow> \<not> negative | NaN \<Rightarrow> False)"

subsection \<open>Example worlds\<close>

text \<open>A metadata file with the date and the time of the spec's example, the same without
  the \<^verbatim>\<open>Z\<close>, two with seconds below ten, one with a date that is no date, and one without a date or
  a time. The last file of the world is not text.\<close>

definition example_metadata :: string where
  "example_metadata =
     ''GROUP = PRODUCT_METADATA'' @ NEWLINE
     @ ''    DATE_ACQUIRED = 2015-06-12'' @ NEWLINE
     @ ''    SCENE_CENTER_TIME = '' @ [CHR 0x22] @ ''09:15:23.1234560Z'' @ [CHR 0x22] @ NEWLINE
     @ ''END_GROUP = PRODUCT_METADATA'' @ NEWLINE"

definition example_metadata_no_Z :: string where
  "example_metadata_no_Z =
     ''    DATE_ACQUIRED = 2015-06-12'' @ NEWLINE
     @ ''    SCENE_CENTER_TIME = 09:15:23.1234560'' @ NEWLINE"

definition example_metadata_9_5 :: string where
  "example_metadata_9_5 =
     ''    DATE_ACQUIRED = 2015-06-12'' @ NEWLINE
     @ ''    SCENE_CENTER_TIME = '' @ [CHR 0x22] @ ''10:20:9.5Z'' @ [CHR 0x22] @ NEWLINE"

definition example_metadata_09_5 :: string where
  "example_metadata_09_5 =
     ''    DATE_ACQUIRED = 2015-06-12'' @ NEWLINE
     @ ''    SCENE_CENTER_TIME = '' @ [CHR 0x22] @ ''10:20:09.5000000Z'' @ [CHR 0x22] @ NEWLINE"

definition example_metadata_bad_date :: string where
  "example_metadata_bad_date =
     ''    DATE_ACQUIRED = 2015-13-45'' @ NEWLINE
     @ ''    SCENE_CENTER_TIME = '' @ [CHR 0x22] @ ''09:15:23.1234560Z'' @ [CHR 0x22] @ NEWLINE"

definition example_metadata_no_fields :: string where
  "example_metadata_no_fields =
     ''GROUP = PRODUCT_METADATA'' @ NEWLINE
     @ ''    SPACECRAFT_ID = LANDSAT_8'' @ NEWLINE
     @ ''END_GROUP = PRODUCT_METADATA'' @ NEWLINE"

definition example_world :: world where
  "example_world =
     \<lparr>files = [''/data/LC08/LC08_MTL.txt'' \<mapsto> Text example_metadata,
               ''/data/LC08_no_Z/LC08_MTL.txt'' \<mapsto> Text example_metadata_no_Z,
               ''/data/LC08_no_fields/LC08_MTL.txt'' \<mapsto> Text example_metadata_no_fields,
               ''/data/LC08_bad_date/LC08_MTL.txt'' \<mapsto> Text example_metadata_bad_date,
               ''/data/LC08_9_5/LC08_MTL.txt'' \<mapsto> Text example_metadata_9_5,
               ''/data/LC08_09_5/LC08_MTL.txt'' \<mapsto> Text example_metadata_09_5,
               ''/data/LC08_binary/LC08_MTL.txt'' \<mapsto> Undecodable],
      open_handles = [], next_handle = 0\<rparr>"

text \<open>A stand-in for \<^verbatim>\<open>get_metafile\<close>: the metadata file is \<open>LC08_MTL.txt\<close> in the scene.\<close>

definition example_metafile :: "string \<Rightarrow> error + string" where
  "example_metafile scene = Inr (scene @ ''/LC08_MTL.txt'')"

section \<open>Properties of band selection\<close>

subsection \<open>The sort key of a band file name\<close>

lemma split_first_underscore_B:
  "\<not> contains ''_B'' (pre @ ''_'') \<Longrightarrow>
   split_first ''_B'' (pre @ CHR ''_'' # CHR ''B'' # rest) = Some (pre, rest)"
proof (induction pre)
  case Nil
  show ?case by (simp add: startswith_def)
next
  case (Cons c pre)
  from Cons.prems have no_here: "\<not> startswith (c # pre @ ''_'') ''_B''"
    and no_later: "\<not> contains ''_B'' (pre @ ''_'')"
    by simp_all
  have "\<not> startswith (c # pre @ CHR ''_'' # CHR ''B'' # rest) ''_B''"
    using no_here by (cases pre) (simp_all add: startswith_def)
  then show ?case
    using Cons.IH [OF no_later] by simp
qed

lemma split_first_dot:
  "CHR ''.'' \<notin> set ds \<Longrightarrow> split_first ''.'' (ds @ CHR ''.'' # ext) = Some (ds, ext)"
  by (induction ds) (auto simp: startswith_def)

lemma isdigit_no_dot: "isdigit ds \<Longrightarrow> CHR ''.'' \<notin> set ds"
  by (auto simp: isdigit_def list_all_iff is_digit_def)

lemma band_token_of_name:
  "\<not> contains ''_B'' (pre @ ''_'') \<Longrightarrow> CHR ''.'' \<notin> set ds \<Longrightarrow>
   band_token (pre @ ''_B'' @ ds @ ''.'' @ ext) = ds"
  by (simp add: band_token_def partition_py_def split_first_underscore_B split_first_dot)

subsection \<open>Spectral sets\<close>

lemma extend_bands_ok:
  "set spectral_sets \<subseteq> dom LANDSAT_BANDS \<Longrightarrow>
   extend_bands LANDSAT_BANDS spectral_sets acc =
     Inr (acc @ concat (map (\<lambda>s. the (LANDSAT_BANDS s)) spectral_sets))"
  by (induction spectral_sets arbitrary: acc) (auto split: option.splits)

lemma extend_bands_missing:
  "\<not> set spectral_sets \<subseteq> dom LANDSAT_BANDS \<Longrightarrow>
   extend_bands LANDSAT_BANDS spectral_sets acc = Inl KeyError"
  by (induction spectral_sets arbitrary: acc) (auto split: option.splits)

text \<open>
  C7. Whatever order the Python set is iterated in, the expansion of a selection of
  spectral sets that are all keys of the table is a list without repetition whose elements
  are exactly the union of the selected sets: each band index occurs exactly once, however
  many selected sets contain it. (A set name that is not a key raises \<^verbatim>\<open>KeyError\<close>.)
\<close>

theorem spectral_sets_union:
  assumes order: "\<forall>ys. mset (set_order ys) = mset ys"
  shows "(set spectral_sets \<subseteq> dom LANDSAT_BANDS \<longrightarrow>
           (\<exists>bands. retrieve_selected_sets_of_bands set_order LANDSAT_BANDS spectral_sets = Inr bands
              \<and> distinct bands
              \<and> set bands = (\<Union>s \<in> set spectral_sets. set (the (LANDSAT_BANDS s)))
              \<and> (\<forall>b \<in> set bands. count_list bands b = 1)))
       \<and> (\<not> set spectral_sets \<subseteq> dom LANDSAT_BANDS \<longrightarrow>
           retrieve_selected_sets_of_bands set_order LANDSAT_BANDS spectral_sets = Inl KeyError)"
proof (intro conjI impI)
  assume keys: "set spectral_sets \<subseteq> dom LANDSAT_BANDS"
  let ?req = "concat (map (\<lambda>s. the (LANDSAT_BANDS s)) spectral_sets)"
  let ?bands = "set_order (remdups ?req)"
  have res: "retrieve_selected_sets_of_bands set_order LANDSAT_BANDS spectral_sets = Inr ?bands"
    using extend_bands_ok [OF keys, of "[]"] by (simp add: retrieve_selected_sets_of_bands_def)
  have m: "mset ?bands = mset (remdups ?req)"
    using order by blast
  have d: "distinct ?bands"
    using m by (metis distinct_remdups mset_eq_imp_distinct_iff)
  have s: "set ?bands = (\<Union>s \<in> set spectral_sets. set (the (LANDSAT_BANDS s)))"
    using mset_eq_setD [OF m] by auto
  have c: "\<forall>b \<in> set ?bands. count_list ?bands b = 1"
    using d by (metis count_mset distinct_count_atmost_1)
  show "\<exists>bands. retrieve_selected_sets_of_bands set_order LANDSAT_BANDS spectral_sets = Inr bands
              \<and> distinct bands
              \<and> set bands = (\<Union>s \<in> set spectral_sets. set (the (LANDSAT_BANDS s)))
              \<and> (\<forall>b \<in> set bands. count_list bands b = 1)"
    using res d s c by blast
next
  assume "\<not> set spectral_sets \<subseteq> dom LANDSAT_BANDS"
  then show "retrieve_selected_sets_of_bands set_order LANDSAT_BANDS spectral_sets = Inl KeyError"
    by (simp add: retrieve_selected_sets_of_bands_def extend_bands_missing)
qed

theorem spectral_sets_union_witness:
  "(\<forall>ys :: nat list. mset (rev ys) = mset ys)
   \<and> set [''infrared'', ''tirs'']
       \<subseteq> dom [''tirs'' \<mapsto> [10, 11 :: nat], ''infrared'' \<mapsto> [5, 6, 7, 10, 11]]
   \<and> retrieve_selected_sets_of_bands rev
        [''tirs'' \<mapsto> [10, 11 :: nat], ''infrared'' \<mapsto> [5, 6, 7, 10, 11]] [''infrared'', ''tirs'']
      = Inr [11, 10, 7, 6, 5]
   \<and> \<not> set [''oli''] \<subseteq> dom [''tirs'' \<mapsto> [10, 11 :: nat]]
   \<and> retrieve_selected_sets_of_bands rev [''tirs'' \<mapsto> [10, 11 :: nat]] [''oli''] = Inl KeyError"
  using spectral_sets_union [of rev "[''infrared'', ''tirs'']"
      "[''tirs'' \<mapsto> [10, 11 :: nat], ''infrared'' \<mapsto> [5, 6, 7, 10, 11]]"]
    spectral_sets_union [of rev "[''oli'']" "[''tirs'' \<mapsto> [10, 11 :: nat]]"]
  by (simp add: retrieve_selected_sets_of_bands_def)

section \<open>Properties of scene and band identification\<close>

subsection \<open>Collection resolution\<close>

lemma identify_none:
  "\<forall>p \<in> set scene_template. re_match (snd p) name = NoMatch \<Longrightarrow>
   identify_product_collection re_match scene_template name = Inr None"
  by (induction scene_template) auto

lemma identify_first:
  "i < length scene_template \<Longrightarrow> re_match (snd (scene_template ! i)) name = Match \<Longrightarrow>
   \<forall>j<i. re_match (snd (scene_template ! j)) name = NoMatch \<Longrightarrow>
   identify_product_collection re_match scene_template name = Inr (Some (fst (scene_template ! i)))"
proof (induction scene_template arbitrary: i)
  case Nil
  then show ?case by simp
next
  case (Cons p rest)
  obtain k t where p: "p = (k, t)" by (cases p)
  show ?case
  proof (cases i)
    case 0
    with Cons.prems p show ?thesis by simp
  next
    case (Suc i')
    from Cons.prems(3) Suc have first: "re_match t name = NoMatch"
      using p by auto
    have rest: "\<forall>j<i'. re_match (snd (rest ! j)) name = NoMatch"
      using Cons.prems(3) Suc by auto
    have "identify_product_collection re_match rest name = Inr (Some (fst (rest ! i')))"
      using Cons.IH [of i'] Cons.prems(1,2) Suc rest by simp
    with first p Suc show ?thesis by simp
  qed
qed

text \<open>
  C4. When no configured scene-name template matches the base name of the scene,
  \<^verbatim>\<open>identify_product_collection\<close> returns \<^verbatim>\<open>None\<close> and the resolution step of \<^verbatim>\<open>main\<close>, which
  looks the band template up with it, ends in \<^verbatim>\<open>grass.fatal\<close>: the run aborts. When some
  template matches a name, and the templates before it do not, the function returns the
  key of that first matching template.
\<close>

theorem identify_product_collection_resolution:
  "((\<forall>p \<in> set scene_template. re_match (snd p) (basename scene) = NoMatch) \<longrightarrow>
       identify_product_collection re_match scene_template (basename scene) = Inr None
     \<and> main_band_template re_match scene_template band_template scene = Inl Fatal)
   \<and> (i < length scene_template \<and> re_match (snd (scene_template ! i)) name = Match
        \<and> (\<forall>j<i. re_match (snd (scene_template ! j)) name = NoMatch) \<longrightarrow>
       identify_product_collection re_match scene_template name
         = Inr (Some (fst (scene_template ! i))))"
  using identify_none [of scene_template re_match "basename scene"]
    identify_first [of i scene_template re_match name]
  by (simp add: main_band_template_def)


theorem identify_product_collection_resolution_witness:
  "prefix_match ''LC08_'' (basename ''/data/unknown_scene'') = NoMatch
   \<and> prefix_match ''LC8'' (basename ''/data/unknown_scene'') = NoMatch
   \<and> identify_product_collection prefix_match
        [(''collection_1'', ''LC08_''), (''pre_collection'', ''LC8'')]
        (basename ''/data/unknown_scene'') = Inr None
   \<and> main_band_template prefix_match
        [(''collection_1'', ''LC08_''), (''pre_collection'', ''LC8'')]
        [''collection_1'' \<mapsto> ''band_template_1''] ''/data/unknown_scene'' = Inl Fatal
   \<and> 1 < length [(''collection_1'', ''LC08_''), (''pre_collection'', ''LC8'')]
   \<and> prefix_match (snd ([(''collection_1'', ''LC08_''), (''pre_collection'', ''LC8'')] ! 1))
        ''LC81940282015163LGN00'' = Match
   \<and> prefix_match (snd ([(''collection_1'', ''LC08_''), (''pre_collection'', ''LC8'')] ! 0))
        ''LC81940282015163LGN00'' = NoMatch
   \<and> identify_product_collection prefix_match
        [(''collection_1'', ''LC08_''), (''pre_collection'', ''LC8'')] ''LC81940282015163LGN00''
      = Inr (Some ''pre_collection'')"
  using identify_product_collection_resolution [of
      "[(''collection_1'', ''LC08_''), (''pre_collection'', ''LC8'')]" prefix_match
      "''/data/unknown_scene''" "[''collection_1'' \<mapsto> ''band_template_1'']" 1
      "''LC81940282015163LGN00''"]
  by (simp add: prefix_match_def startswith_def basename_def)

subsection \<open>Digits\<close>

lemma is_digit_iff: "is_digit c \<longleftrightarrow> c \<in> set ''0123456789''"
proof -
  have "is_digit c \<longleftrightarrow> 48 \<le> (of_char c :: nat) \<and> (of_char c :: nat) \<le> 57"
    by (simp add: is_digit_def less_eq_char_def)
  also have "\<dots> \<longleftrightarrow> (of_char c :: nat) \<in> {48, 49, 50, 51, 52, 53, 54, 55, 56, 57}"
    by (simp only: insert_iff empty_iff) presburger
  also have "\<dots> \<longleftrightarrow> c \<in> set ''0123456789''"
    by (cases c) auto
  finally show ?thesis .
qed

subsection \<open>The last token of a file name\<close>

lemma split_char_not_Nil: "split_char c xs \<noteq> []"
  by (induction xs) (auto split: list.splits)

lemma split_char_no_sep: "c \<notin> set xs \<Longrightarrow> split_char c xs = [xs]"
  by (induction xs) auto

lemma split_char_append:
  "split_char c (xs @ c # ys) = split_char c xs @ split_char c ys"
proof (induction xs)
  case Nil
  show ?case by simp
next
  case (Cons x xs)
  obtain p ps where "split_char c xs = p # ps"
    using split_char_not_Nil [of c xs] by (cases "split_char c xs") auto
  with Cons show ?case by simp
qed

lemma last_split_char:
  "c \<notin> set tok \<Longrightarrow> last (split_char c (pre @ c # tok)) = tok"
  by (simp add: split_char_append split_char_no_sep)

lemma takeWhile_append_stop:
  "\<forall>x \<in> set xs. P x \<Longrightarrow> ys = [] \<or> \<not> P (hd ys) \<Longrightarrow> takeWhile P (xs @ ys) = xs"
  by (induction xs) (auto simp: takeWhile_eq_Nil_iff neq_Nil_conv)

lemma dropWhile_append_stop:
  "\<forall>x \<in> set xs. P x \<Longrightarrow> ys = [] \<or> \<not> P (hd ys) \<Longrightarrow> dropWhile P (xs @ ys) = ys"
  by (induction xs) (auto simp: dropWhile_eq_self_iff neq_Nil_conv)

lemma path_join_prefix:
  "CHR ''/'' \<notin> set p \<Longrightarrow> path_join a p = join_prefix a @ p"
  by (cases p) (auto simp: path_join_def join_prefix_def startswith_def)

lemma join_prefix_last: "join_prefix a = [] \<or> last (join_prefix a) = CHR ''/''"
proof (cases "a = [] \<or> endswith a ''/''")
  case True
  then show ?thesis
  proof
    assume "a = []" then show ?thesis by (simp add: join_prefix_def)
  next
    assume e: "endswith a ''/''"
    then have "a \<noteq> []" by (auto simp: endswith_def)
    moreover from e have "drop (length a - 1) a = [CHR ''/'']" by (simp add: endswith_def)
    ultimately have "last a = CHR ''/''"
      by (metis last_drop last.simps diff_less length_greater_0_conv zero_less_one)
    with e show ?thesis by (simp add: join_prefix_def)
  qed
next
  case False
  then show ?thesis by (simp add: join_prefix_def)
qed

lemma basename_prefixed:
  assumes "CHR ''/'' \<notin> set p" and "d = [] \<or> last d = CHR ''/''"
  shows "basename (d @ p) = p" and "dirpart (d @ p) = d"
proof -
  have stop: "rev d = [] \<or> \<not> (hd (rev d) \<noteq> CHR ''/'')"
    using assms(2) by (auto simp: hd_rev)
  have all: "\<forall>x \<in> set (rev p). x \<noteq> CHR ''/''"
    using assms(1) by auto
  show "basename (d @ p) = p"
    using takeWhile_append_stop [OF all stop] by (simp add: basename_def)
  show "dirpart (d @ p) = d"
    using dropWhile_append_stop [OF all stop] by (simp add: dirpart_def)
qed

lemma splitext_prefixed:
  assumes "CHR ''/'' \<notin> set p" and "d = [] \<or> last d = CHR ''/''"
  shows "fst (splitext (d @ p)) = d @ fst (splitext p)"
proof -
  let ?u = "rev (dropWhile (\<lambda>c. c \<noteq> CHR ''.'') (rev p))"
  let ?e = "rev (takeWhile (\<lambda>c. c \<noteq> CHR ''.'') (rev p))"
  let ?c = "?u = [] \<or> list_all (\<lambda>c. c = CHR ''.'') (butlast ?u)"
  have b: "basename (d @ p) = p" "dirpart (d @ p) = d"
    using basename_prefixed [OF assms] by simp_all
  have b0: "basename p = p" "dirpart p = []"
    using basename_prefixed [of p "[]"] assms(1) by simp_all
  have long: "splitext (d @ p) = (if ?c then (d @ p, []) else (d @ butlast ?u, CHR ''.'' # ?e))"
    by (simp only: splitext_def Let_def b)
  have short: "splitext p = (if ?c then (p, []) else ([] @ butlast ?u, CHR ''.'' # ?e))"
    by (simp only: splitext_def Let_def b0)
  show ?thesis
  proof (cases ?c)
    case True
    then show ?thesis by (simp only: long short if_True fst_conv)
  next
    case False
    then show ?thesis by (simp only: long short if_False fst_conv append_Nil)
  qed
qed

lemma name_of_joined:
  assumes "CHR ''/'' \<notin> set filename"
    and "fst (splitext filename) = pre @ ''_'' @ tok" and "CHR ''_'' \<notin> set tok"
  shows "last (split_char CHR ''_'' (fst (splitext (path_join scene filename)))) = tok"
    and "last (split_char CHR ''_'' (fst (splitext filename))) = tok"
proof -
  have "fst (splitext (path_join scene filename)) = (join_prefix scene @ pre) @ CHR ''_'' # tok"
    using splitext_prefixed [OF assms(1) join_prefix_last [of scene]] assms(2)
    by (simp add: path_join_prefix [OF assms(1)])
  then show "last (split_char CHR ''_'' (fst (splitext (path_join scene filename)))) = tok"
    using last_split_char [OF assms(3), of "join_prefix scene @ pre"] by simp
  show "last (split_char CHR ''_'' (fst (splitext filename))) = tok"
    using last_split_char [OF assms(3), of pre] assms(2) by simp
qed

lemma py_int_digits_all: "\<forall>d \<in> set ''0123456789''. py_int [d] = Some (int (digit_val d))"
  by code_simp

lemma py_int_digit: "is_digit d \<Longrightarrow> py_int [d] = Some (int (digit_val d))"
  using py_int_digits_all by (simp only: is_digit_iff)

lemma py_int_10_11: "py_int ''10'' = Some 10" "py_int ''11'' = Some 11"
  by code_simp+

subsection \<open>Name and band\<close>

lemma get_name_band_of_token:
  assumes "CHR ''/'' \<notin> set filename"
    and "fst (splitext filename) = pre @ ''_'' @ tok" and "CHR ''_'' \<notin> set tok"
  shows "get_name_band IMAGE_QUALITY_STRINGS MTL_STRING QA_STRING scene filename single_mapset =
     (case
        (if contains MTL_STRING (path_join scene filename) then Inl Fatal
         else if contains QA_STRING (path_join scene filename) then Inr (StrBand tok)
         else if length tok = 3 \<and> tok ! 0 = CHR ''B'' \<and> last tok = CHR ''0''
           then int_band (take 2 (drop 1 tok))
         else if length tok = 3 \<and> last tok = CHR ''0''
           then int_band (take 1 (drop 1 tok))
         else if length tok = 3 \<and> last tok \<noteq> CHR ''0''
           then int_band (take 2 (drop 1 tok))
         else int_band (if tok = [] then [] else [last tok]))
      of Inl e \<Rightarrow> Inl e
       | Inr b \<Rightarrow> Inr (if single_mapset then basename scene @ ''_'' @ tok else tok, b))"
proof -
  have name: "(if list_ex (\<lambda>string. contains string (path_join scene filename)) IMAGE_QUALITY_STRINGS
               then last (split_char CHR ''_'' (fst (splitext (path_join scene filename))))
               else last (split_char CHR ''_'' (fst (splitext filename)))) = tok"
    using name_of_joined [OF assms] by (simp only: if_cancel)
  show ?thesis
    by (simp only: get_name_band_def Let_def name)
qed

text \<open>
  Claim C10. Take a file name without a slash whose stem ends in an underscore followed by
  the token \<open>tok\<close>. The code looks for the markers in the joined path of the scene and the
  file, not in the file name as its comments say. If the joined path contains neither the
  MTL marker nor the quality marker, the band is the digit \<open>d\<close> for the token \<open>Bd\<close>, 10
  for \<open>B10\<close> and 11 for \<open>B11\<close>; if it contains the quality marker and not the MTL
  marker, the band is the token itself, a string; if it contains the MTL marker, the
  function ends in \<^verbatim>\<open>grass.fatal\<close>. So a marker in the name of the scene directory decides the
  band of every file of the scene.
\<close>

theorem get_name_band_bands:
  assumes "CHR ''/'' \<notin> set filename"
    and "fst (splitext filename) = pre @ ''_'' @ tok" and "CHR ''_'' \<notin> set tok"
  shows
   "(contains MTL_STRING (path_join scene filename) \<longrightarrow>
       get_name_band IMAGE_QUALITY_STRINGS MTL_STRING QA_STRING scene filename single_mapset
         = Inl Fatal)
    \<and> (\<not> contains MTL_STRING (path_join scene filename)
         \<and> contains QA_STRING (path_join scene filename) \<longrightarrow>
       get_name_band IMAGE_QUALITY_STRINGS MTL_STRING QA_STRING scene filename single_mapset
         = Inr (if single_mapset then basename scene @ ''_'' @ tok else tok, StrBand tok))
    \<and> (\<not> contains MTL_STRING (path_join scene filename)
         \<and> \<not> contains QA_STRING (path_join scene filename) \<longrightarrow>
       (\<forall>d. is_digit d \<and> tok = [CHR ''B'', d] \<longrightarrow>
          get_name_band IMAGE_QUALITY_STRINGS MTL_STRING QA_STRING scene filename single_mapset
            = Inr (if single_mapset then basename scene @ ''_'' @ tok else tok,
                   IntBand (int (digit_val d))))
       \<and> (tok = ''B10'' \<longrightarrow>
          get_name_band IMAGE_QUALITY_STRINGS MTL_STRING QA_STRING scene filename single_mapset
            = Inr (if single_mapset then basename scene @ ''_'' @ tok else tok, IntBand 10))
       \<and> (tok = ''B11'' \<longrightarrow>
          get_name_band IMAGE_QUALITY_STRINGS MTL_STRING QA_STRING scene filename single_mapset
            = Inr (if single_mapset then basename scene @ ''_'' @ tok else tok, IntBand 11)))"
proof -
  note g = get_name_band_of_token [OF assms, of IMAGE_QUALITY_STRINGS MTL_STRING QA_STRING scene
      single_mapset]
  have mtl: "contains MTL_STRING (path_join scene filename) \<longrightarrow>
       get_name_band IMAGE_QUALITY_STRINGS MTL_STRING QA_STRING scene filename single_mapset
         = Inl Fatal"
    by (simp add: g)
  have qa: "\<not> contains MTL_STRING (path_join scene filename)
         \<and> contains QA_STRING (path_join scene filename) \<longrightarrow>
       get_name_band IMAGE_QUALITY_STRINGS MTL_STRING QA_STRING scene filename single_mapset
         = Inr (if single_mapset then basename scene @ ''_'' @ tok else tok, StrBand tok)"
    by (simp add: g)
  have one: "\<not> contains MTL_STRING (path_join scene filename)
         \<and> \<not> contains QA_STRING (path_join scene filename) \<longrightarrow>
       (\<forall>d. is_digit d \<and> tok = [CHR ''B'', d] \<longrightarrow>
          get_name_band IMAGE_QUALITY_STRINGS MTL_STRING QA_STRING scene filename single_mapset
            = Inr (if single_mapset then basename scene @ ''_'' @ tok else tok,
                   IntBand (int (digit_val d))))"
    by (simp add: g int_band_def py_int_digit)
  have ten: "\<not> contains MTL_STRING (path_join scene filename)
         \<and> \<not> contains QA_STRING (path_join scene filename) \<longrightarrow>
       (tok = ''B10'' \<longrightarrow>
          get_name_band IMAGE_QUALITY_STRINGS MTL_STRING QA_STRING scene filename single_mapset
            = Inr (if single_mapset then basename scene @ ''_'' @ tok else tok, IntBand 10))"
    by (simp add: g int_band_def py_int_10_11)
  have eleven: "\<not> contains MTL_STRING (path_join scene filename)
         \<and> \<not> contains QA_STRING (path_join scene filename) \<longrightarrow>
       (tok = ''B11'' \<longrightarrow>
          get_name_band IMAGE_QUALITY_STRINGS MTL_STRING QA_STRING scene filename single_mapset
            = Inr (if single_mapset then basename scene @ ''_'' @ tok else tok, IntBand 11))"
    by (simp add: g int_band_def py_int_10_11)
  from mtl qa one ten eleven show ?thesis by blast
qed

lemma get_name_band_examples:
  "get_name_band [''QA'', ''VCID''] ''MTL'' ''QA'' ''/data/BQA/LC08'' ''LC08_B1.TIF'' False
      = Inr (''B1'', StrBand ''B1'')"
  "get_name_band [''QA'', ''VCID''] ''MTL'' ''BQA'' ''/data/BQA/LC08'' ''LC08_B1.TIF'' False
      = Inr (''B1'', StrBand ''B1'')"
  "get_name_band [] ''MTL'' ''QA'' ''/data/BQA/LC08'' ''LC08_B1.TIF'' False
      = Inr (''B1'', StrBand ''B1'')"
  "get_name_band [''QA'', ''VCID''] ''MTL'' ''QA'' ''/data/LC08'' ''LC08_B5.TIF'' False
      = Inr (''B5'', IntBand 5)"
  "get_name_band [''QA'', ''VCID''] ''MTL'' ''QA'' ''/data/LC08'' ''LC08_B10.TIF'' False
      = Inr (''B10'', IntBand 10)"
  "get_name_band [''QA'', ''VCID''] ''MTL'' ''QA'' ''/data/LC08'' ''LC08_B11.TIF'' True
      = Inr (''LC08_B11'', IntBand 11)"
  "get_name_band [''QA'', ''VCID''] ''MTL'' ''QA'' ''/data/LC08'' ''LC08_BQA.TIF'' False
      = Inr (''BQA'', StrBand ''BQA'')"
  "get_name_band [''QA'', ''VCID''] ''MTL'' ''QA'' ''/data/LC08'' ''LC08_MTL.TIF'' False
      = Inl Fatal"
  "get_name_band [''QA'', ''VCID''] ''MTL'' ''QA'' ''/data/MTL_archive/LC08'' ''LC08_B1.TIF''
      False = Inl Fatal"
  by code_simp+


theorem get_name_band_bands_witness:
  "CHR ''/'' \<notin> set ''LC08_B5.TIF''
   \<and> fst (splitext ''LC08_B5.TIF'') = ''LC08'' @ ''_'' @ ''B5''
   \<and> CHR ''_'' \<notin> set ''B5''
   \<and> \<not> contains ''MTL'' (path_join ''/data/LC08'' ''LC08_B5.TIF'')
   \<and> \<not> contains ''QA'' (path_join ''/data/LC08'' ''LC08_B5.TIF'')
   \<and> is_digit CHR ''5'' \<and> ''B5'' = [CHR ''B'', CHR ''5'']
   \<and> get_name_band [''QA'', ''VCID''] ''MTL'' ''QA'' ''/data/LC08'' ''LC08_B5.TIF'' False
       = Inr (''B5'', IntBand (int (digit_val CHR ''5'')))"
proof -
  have h1: "CHR ''/'' \<notin> set ''LC08_B5.TIF''" by simp
  have h2: "fst (splitext ''LC08_B5.TIF'') = ''LC08'' @ ''_'' @ ''B5''" by code_simp
  have h3: "CHR ''_'' \<notin> set ''B5''" by simp
  have h4: "\<not> contains ''MTL'' (path_join ''/data/LC08'' ''LC08_B5.TIF'')" by code_simp
  have h5: "\<not> contains ''QA'' (path_join ''/data/LC08'' ''LC08_B5.TIF'')" by code_simp
  have h6: "is_digit CHR ''5''" by code_simp
  from get_name_band_bands [OF h1 h2 h3, of "''MTL''" "''/data/LC08''" "[''QA'', ''VCID'']"
      "''QA''" False] h4 h5 h6
  have "get_name_band [''QA'', ''VCID''] ''MTL'' ''QA'' ''/data/LC08'' ''LC08_B5.TIF'' False
       = Inr (''B5'', IntBand (int (digit_val CHR ''5'')))"
    by simp
  with h1 h2 h3 h4 h5 h6 show ?thesis by simp
qed

text \<open>
  When the scene directory carries the quality marker, the file \<open>LC08_B1.TIF\<close> in
  \<open>/data/BQA/LC08\<close> gets the band \<open>B1\<close>, a string, not the integer 1; in
  \<open>/data/MTL_archive/LC08\<close> the same file ends the run.
\<close>

theorem get_name_band_marker_in_path_counterexample:
  "get_name_band [''QA'', ''VCID''] ''MTL'' ''QA'' ''/data/BQA/LC08'' ''LC08_B1.TIF'' False
      = Inr (''B1'', StrBand ''B1'')
   \<and> get_name_band [''QA'', ''VCID''] ''MTL'' ''QA'' ''/data/BQA/LC08'' ''LC08_B1.TIF'' False
      \<noteq> Inr (''B1'', IntBand 1)
   \<and> get_name_band [''QA'', ''VCID''] ''MTL'' ''BQA'' ''/data/BQA/LC08'' ''LC08_B1.TIF'' False
      \<noteq> Inr (''B1'', IntBand 1)
   \<and> get_name_band [] ''MTL'' ''QA'' ''/data/BQA/LC08'' ''LC08_B1.TIF'' False
      \<noteq> Inr (''B1'', IntBand 1)
   \<and> get_name_band [''QA'', ''VCID''] ''MTL'' ''QA'' ''/data/MTL_archive/LC08'' ''LC08_B1.TIF''
        False = Inl Fatal"
  by (simp add: get_name_band_examples)

section \<open>Properties of digit strings and decimal rendering\<close>

lemma digit_not_space: "is_digit c \<Longrightarrow> \<not> is_py_space c"
  by (auto simp: is_digit_iff is_py_space_def)

lemma digit_not_sign: "is_digit c \<Longrightarrow> c \<noteq> CHR ''-'' \<and> c \<noteq> CHR ''+'' \<and> c \<noteq> CHR ''.''
    \<and> c \<noteq> CHR ''_'' \<and> c \<noteq> CHR ''e''"
  by (auto simp: is_digit_iff)

lemma lower_digit: "is_digit c \<Longrightarrow> lower c = c"
  by (auto simp: is_digit_iff lower_def less_eq_char_def)

lemma lower_dot: "lower CHR ''.'' = CHR ''.''"
  by (simp add: lower_def less_eq_char_def)

lemma strip_with_id:
  assumes "s \<noteq> []" and "\<not> p (hd s)" and "\<not> p (last s)"
  shows "strip_with p s = s"
proof -
  have "dropWhile p (rev s) = rev s"
    using assms by (cases "rev s") (auto simp: last_rev [symmetric] hd_rev)
  then show ?thesis
    using assms by (cases s) (auto simp: strip_with_def)
qed

lemma no_double_underscore_digits:
  "list_all is_digit s \<Longrightarrow> no_double_underscore s"
  by (induction s rule: no_double_underscore.induct) (auto dest: digit_not_sign)

lemma digitpart_digits: "isdigit s \<Longrightarrow> digitpart s"
proof -
  assume d: "isdigit s"
  then have ne: "s \<noteq> []" and all: "list_all is_digit s"
    by (simp_all add: isdigit_def)
  have "is_digit (hd s)" and "is_digit (last s)"
    using ne all by (auto simp: list_all_iff)
  moreover have "list_all (\<lambda>c. is_digit c \<or> c = CHR ''_'') s"
    using all by (auto simp: list_all_iff)
  ultimately show ?thesis
    using ne no_double_underscore_digits [OF all] by (simp add: digitpart_def)
qed

lemma filter_digits: "list_all is_digit s \<Longrightarrow> filter is_digit s = s"
  by (induction s) auto

lemma digitpart_val_digits: "isdigit s \<Longrightarrow> digitpart_val s = digits_to_int s"
  by (simp add: digitpart_val_def isdigit_def filter_digits)

lemma digits_to_int_snoc: "digits_to_int (s @ [c]) = 10 * digits_to_int s + int (digit_val c)"
  by (simp add: digits_to_int_def)

lemma digits_to_int_nonneg: "0 \<le> digits_to_int s"
  by (induction s rule: rev_induct) (simp_all add: digits_to_int_def)

lemma digits_to_int_append:
  "digits_to_int (xs @ ys) = digits_to_int xs * 10 ^ length ys + digits_to_int ys"
proof (induction ys rule: rev_induct)
  case Nil
  show ?case by (simp add: digits_to_int_def)
next
  case (snoc y ys)
  have "digits_to_int (xs @ ys @ [y]) = 10 * digits_to_int (xs @ ys) + int (digit_val y)"
    using digits_to_int_snoc [of "xs @ ys" y] by simp
  then show ?case
    by (simp add: snoc.IH digits_to_int_snoc algebra_simps)
qed

lemma digits_to_int_zeros: "digits_to_int (replicate k CHR ''0'') = 0"
proof (induction k)
  case 0
  show ?case by (simp add: digits_to_int_def)
next
  case (Suc k)
  have "replicate (Suc k) CHR ''0'' = replicate k CHR ''0'' @ ''0''"
    by (simp add: replicate_append_same)
  then show ?case
    using digits_to_int_snoc [of "replicate k CHR ''0''" "CHR ''0''"] Suc
    by (simp add: digit_val_def)
qed

lemma py_int_digits_limit:
  assumes d: "isdigit s"
  shows "py_int s = (if int (length s) \<le> max_str_digits then Some (digits_to_int s) else None)"
proof -
  from d have ne: "s \<noteq> []" and all: "list_all is_digit s"
    by (simp_all add: isdigit_def)
  have h: "is_digit (hd s)" and l: "is_digit (last s)"
    using ne all by (auto simp: list_all_iff)
  have st: "strip_with is_py_space s = s"
    using ne h l by (intro strip_with_id) (auto dest: digit_not_space)
  show ?thesis
    using d h ne
    by (auto simp: py_int_def st Let_def digitpart_digits digitpart_val_digits
        filter_digits [OF all] dest: digit_not_sign)
qed

lemma py_int_digits:
  "isdigit s \<Longrightarrow> int (length s) \<le> max_str_digits \<Longrightarrow> py_int s = Some (digits_to_int s)"
  by (simp add: py_int_digits_limit)

lemma digit_chars_all:
  "\<forall>d \<in> set [0..9]. is_digit (digit_char d) \<and> int (digit_val (digit_char d)) = d"
  by code_simp

lemma digit_char_digit:
  "0 \<le> d \<Longrightarrow> d \<le> 9 \<Longrightarrow> is_digit (digit_char d) \<and> int (digit_val (digit_char d)) = d"
  using digit_chars_all by simp

lemma digits_of_not_Nil: "digits_of n \<noteq> []"
  by (subst digits_of.simps) simp

lemma digits_of_digits: "0 \<le> n \<Longrightarrow> list_all is_digit (digits_of n)"
proof (induction n rule: digits_of.induct)
  case (1 n)
  show ?case
  proof (cases "n < 10")
    case True
    with "1.prems" show ?thesis
      by (subst digits_of.simps) (simp add: digit_char_digit)
  next
    case False
    then have "list_all is_digit (digits_of (n div 10))"
      using "1.IH" "1.prems" by simp
    moreover have "is_digit (digit_char (n mod 10))"
      by (intro conjunct1 [OF digit_char_digit]) simp_all
    ultimately show ?thesis
      using False by (subst digits_of.simps) simp
  qed
qed

lemma digits_to_int_digits_of: "0 \<le> n \<Longrightarrow> digits_to_int (digits_of n) = n"
proof (induction n rule: digits_of.induct)
  case (1 n)
  show ?case
  proof (cases "n < 10")
    case True
    with "1.prems" show ?thesis
      by (subst digits_of.simps) (simp add: digits_to_int_def digit_char_digit)
  next
    case False
    then have "digits_to_int (digits_of (n div 10)) = n div 10"
      using "1.IH" "1.prems" by simp
    moreover have "int (digit_val (digit_char (n mod 10))) = n mod 10"
      by (intro conjunct2 [OF digit_char_digit]) simp_all
    ultimately show ?thesis
      using False by (subst digits_of.simps) (simp add: digits_to_int_snoc)
  qed
qed

lemma length_digits_of: "0 < k \<Longrightarrow> n < 10 ^ k \<Longrightarrow> length (digits_of n) \<le> k"
proof (induction n arbitrary: k rule: digits_of.induct)
  case (1 n)
  show ?case
  proof (cases "n < 10")
    case True
    with "1.prems" show ?thesis
      by (subst digits_of.simps) simp
  next
    case False
    with "1.prems" have k: "1 < k"
      by (cases "k = 1") auto
    then obtain j where j: "k = Suc j" "0 < j"
      by (cases k) auto
    have "n < 10 * 10 ^ j"
      using "1.prems"(2) j by simp
    moreover have "n = 10 * (n div 10) + n mod 10" and "0 \<le> n mod 10"
      by simp_all
    ultimately have "n div 10 < 10 ^ j"
      by linarith
    then have "length (digits_of (n div 10)) \<le> j"
      using "1.IH" [OF False j(2)] by simp
    then show ?thesis
      using False j by (subst digits_of.simps) simp
  qed
qed

lemma zfill_digits:
  "isdigit s \<Longrightarrow> zfill s n = replicate (n - length s) CHR ''0'' @ s"
  by (cases s) (auto simp: zfill_def isdigit_def dest: digit_not_sign)

lemma isdigit_digits_of: "0 \<le> n \<Longrightarrow> isdigit (digits_of n)"
  by (simp add: isdigit_def digits_of_not_Nil digits_of_digits)

lemma zero_digit: "is_digit CHR ''0''"
  by (simp add: is_digit_iff)

lemma isdigit_zfill: "isdigit s \<Longrightarrow> isdigit (zfill s n)"
  by (auto simp: zfill_digits isdigit_def zero_digit list_all_iff)

lemma length_zfill_6:
  assumes "0 \<le> b" and "b < 1000000"
  shows "length (zfill (digits_of b) 6) = 6"
proof -
  have "length (digits_of b) \<le> 6"
    using length_digits_of [of 6 b] assms by simp
  then show ?thesis
    by (simp add: zfill_digits [OF isdigit_digits_of [OF assms(1)]])
qed

lemma digits_to_int_zfill:
  "0 \<le> n \<Longrightarrow> digits_to_int (zfill (digits_of n) k) = n"
  by (simp add: zfill_digits isdigit_digits_of digits_to_int_append digits_to_int_zeros
      digits_to_int_digits_of)

section \<open>Properties of the float operations\<close>

lemma bit_length_bounds:
  "0 < n \<Longrightarrow> 2 ^ (bit_length n - 1) \<le> n \<and> n < 2 ^ bit_length n"
proof (induction n rule: bit_length.induct)
  case (1 n)
  show ?case
  proof (cases "n = 1")
    case True
    have "bit_length 1 = 1"
      by (simp add: bit_length.simps [of 1] bit_length.simps [of 0])
    with True show ?thesis by simp
  next
    case False
    with "1.prems" have half: "0 < n div 2" by simp
    have ih: "2 ^ (bit_length (n div 2) - 1) \<le> n div 2 \<and> n div 2 < 2 ^ bit_length (n div 2)"
      using "1.IH" "1.prems" half by simp
    have bl: "bit_length n = Suc (bit_length (n div 2))"
      using "1.prems" by (subst bit_length.simps) simp
    have pos: "0 < bit_length (n div 2)"
      using half by (subst bit_length.simps) simp
    then obtain j where j: "bit_length (n div 2) = Suc j"
      by (cases "bit_length (n div 2)") auto
    have n: "n = 2 * (n div 2) + n mod 2" "0 \<le> n mod 2" "n mod 2 < 2"
      by simp_all
    from ih j have lo: "2 ^ j \<le> n div 2" and hi: "n div 2 < 2 * 2 ^ j"
      by simp_all
    have "(2::int) * 2 ^ j \<le> n"
      using lo n by linarith
    moreover have "n < 2 * (2 * 2 ^ j)"
      using hi n by linarith
    ultimately show ?thesis
      by (simp add: bl j)
  qed
qed

lemma floor_log2_lower:
  assumes "0 < num" and "0 < den"
  shows "(0 \<le> floor_log2 num den \<longrightarrow> den * 2 ^ nat (floor_log2 num den) \<le> num)
       \<and> (floor_log2 num den < 0 \<longrightarrow> den \<le> num * 2 ^ nat (- floor_log2 num den))"
proof -
  define bn where "bn = bit_length num"
  define bd where "bd = bit_length den"
  define k where "k = int bn - int bd"
  have n: "2 ^ (bn - 1) \<le> num" "num < 2 ^ bn"
    using bit_length_bounds [OF assms(1)] by (simp_all add: bn_def)
  have d: "2 ^ (bd - 1) \<le> den" "den < 2 ^ bd"
    using bit_length_bounds [OF assms(2)] by (simp_all add: bd_def)
  have bn0: "0 < bn"
    unfolding bn_def using assms(1) by (subst bit_length.simps) simp
  have bd0: "0 < bd"
    unfolding bd_def using assms(2) by (subst bit_length.simps) simp
  let ?test = "if 0 \<le> k then den * 2 ^ nat k \<le> num else den \<le> num * 2 ^ nat (- k)"
  have fl: "floor_log2 num den = (if ?test then k else k - 1)"
    by (simp add: floor_log2_def Let_def k_def bn_def bd_def)
  show ?thesis
  proof (cases ?test)
    case True
    then have "floor_log2 num den = k" using fl by simp
    with True show ?thesis by (auto split: if_splits)
  next
    case False
    then have f: "floor_log2 num den = k - 1" using fl by simp
    show ?thesis
    proof (cases "0 \<le> k - 1")
      case True
      then have "bd + nat (k - 1) = bn - 1"
        using bn0 by (simp add: k_def)
      then have "(2::int) ^ bd * 2 ^ nat (k - 1) = 2 ^ (bn - 1)"
        by (simp flip: power_add)
      moreover have "den * 2 ^ nat (k - 1) \<le> 2 ^ bd * 2 ^ nat (k - 1)"
        using d(2) by (intro mult_right_mono) simp_all
      ultimately have "den * 2 ^ nat (k - 1) \<le> num"
        using n(1) by linarith
      with True f show ?thesis by simp
    next
      case neg: False
      then have "(bn - 1) + nat (- (k - 1)) = bd"
        using bn0 by (simp add: k_def)
      then have "(2::int) ^ (bn - 1) * 2 ^ nat (- (k - 1)) = 2 ^ bd"
        by (simp flip: power_add)
      moreover have "2 ^ (bn - 1) * 2 ^ nat (- (k - 1)) \<le> num * 2 ^ nat (- (k - 1))"
        using n(1) by (intro mult_right_mono) simp_all
      ultimately have "den \<le> num * 2 ^ nat (- (k - 1))"
        using d(2) by linarith
      with neg f show ?thesis by simp
    qed
  qed
qed

lemma round_half_even_bounds:
  assumes "0 \<le> num" and "0 < den"
  shows "num div den \<le> round_half_even num den"
    and "2 * den * round_half_even num den \<le> 2 * num + den"
proof -
  define q where "q = num div den"
  define r where "r = num mod den"
  have m: "num = den * q + r" "0 \<le> r" "r < den"
    using assms by (simp_all add: q_def r_def)
  define c where "c = round_half_even num den - q"
  have c: "c = 0 \<or> (c = 1 \<and> den \<le> 2 * r)"
    by (auto simp: c_def round_half_even_def Let_def q_def r_def)
  have rhe: "round_half_even num den = q + c"
    by (simp add: c_def)
  show "num div den \<le> round_half_even num den"
    using c rhe by (auto simp: q_def)
  have "2 * den * (q + c) = 2 * (den * q) + 2 * den * c"
    by (simp add: algebra_simps)
  moreover have "2 * den * c \<le> 2 * r + den"
    using c m(2) assms(2) by auto
  ultimately show "2 * den * round_half_even num den \<le> 2 * num + den"
    using m(1) rhe by simp
qed

lemma round_half_even_nonneg:
  "0 \<le> num \<Longrightarrow> 0 < den \<Longrightarrow> 0 \<le> round_half_even num den"
  using round_half_even_bounds(1) [of num den] pos_imp_zdiv_nonneg_iff [of den num]
  by simp

lemma round_to_double_nonneg:
  "0 \<le> num \<Longrightarrow> 0 < den \<Longrightarrow> nonneg_float (round_to_double False num den s)"
  by (auto simp: round_to_double_def nonneg_float_def Let_def
      intro!: round_half_even_nonneg mult_nonneg_nonneg mult_pos_pos)

lemma micros_nonneg: "0 \<le> micros m e"
  by (auto simp: micros_def intro!: round_half_even_nonneg mult_nonneg_nonneg)

lemma float_div_int_nonneg:
  "nonneg_float x \<Longrightarrow> 0 < d \<Longrightarrow> nonneg_float (float_div_int x d)"
  by (cases x) (auto simp: float_div_int_def nonneg_float_def [of "Finite _ _"]
      nonneg_float_def [of "Infinite _"] nonneg_float_def [of NaN]
      intro: round_to_double_nonneg)

lemma float_round6_nonneg:
  "nonneg_float x \<Longrightarrow> nonneg_float (float_round6 x)"
  by (cases x) (auto simp: float_round6_def nonneg_float_def [of "Finite _ _"]
      nonneg_float_def [of "Infinite _"] nonneg_float_def [of NaN] micros_nonneg
      intro: round_to_double_nonneg)

lemma float_add_nonneg:
  assumes "0 \<le> m" and "nonneg_float y"
  shows "nonneg_float (float_add (Finite m e) y)"
proof (cases y)
  case (Finite n f)
  with assms(2) have n: "0 \<le> n" by (simp add: nonneg_float_def)
  have "0 \<le> m * 2 ^ nat (e - min e f) + n * 2 ^ nat (f - min e f)"
    using assms(1) n by (intro add_nonneg_nonneg mult_nonneg_nonneg) simp_all
  then show ?thesis
    using Finite by (simp add: float_add_def Let_def round_to_double_nonneg)
next
  case (Infinite b)
  with assms(2) show ?thesis by (simp add: float_add_def nonneg_float_def)
next
  case NaN
  with assms(2) show ?thesis by (simp add: nonneg_float_def)
qed

lemma round_to_double_unfold:
  assumes "num \<noteq> 0"
  shows "round_to_double negative num den s =
     (let e = max (floor_log2 num den + s - 52) (- 1074);
          m = (if e \<le> s then round_half_even (num * 2 ^ nat (s - e)) den
               else round_half_even num (den * 2 ^ nat (e - s)))
      in if 971 < e \<or> (e = 971 \<and> 2 ^ 53 \<le> m) then Infinite negative
         else Finite (if negative then - m else m) e)"
  by (simp only: round_to_double_def assms if_False)

lemma two_power_49: "49 \<le> n \<Longrightarrow> (562949953421312::int) \<le> 2 ^ n"
proof -
  assume "49 \<le> n"
  then have "(2::int) ^ 49 \<le> 2 ^ n"
    by (intro power_increasing) simp_all
  then show ?thesis by simp
qed

lemma below_ten_float_less:
  assumes "0 < N" and "N < 10000000"
  shows "float_less_int (round_to_double False N 1000000 0) 10"
proof -
  define k where "k = floor_log2 N 1000000"
  define e where "e = max (k - 52) (- 1074)"
  have lower: "0 \<le> k \<longrightarrow> 1000000 * 2 ^ nat k \<le> N"
    using floor_log2_lower [of N 1000000] assms(1) by (simp add: k_def)
  have k3: "k \<le> 3"
  proof (rule ccontr)
    assume "\<not> k \<le> 3"
    then have k4: "4 \<le> k" by simp
    then have "(2::int) ^ 4 \<le> 2 ^ nat k"
      by (intro power_increasing) simp_all
    then have "(16000000::int) \<le> 1000000 * 2 ^ nat k" by simp
    with lower k4 assms(2) show False by simp
  qed
  then have e49: "e \<le> - 49"
    by (simp add: e_def)
  define P where "P = (2::int) ^ nat (- e)"
  have P: "562949953421312 \<le> P"
    unfolding P_def using e49 by (intro two_power_49) simp
  define m where "m = round_half_even (N * P) 1000000"
  have e_eq: "max (floor_log2 N 1000000 + 0 - 52) (- 1074) = e"
    by (simp add: e_def k_def)
  have conds: "e \<le> 0" "\<not> 971 < e" "e \<noteq> 971" "0 - e = - e"
    using e49 by simp_all
  have N0: "N \<noteq> 0" using assms(1) by simp
  have r: "round_to_double False N 1000000 0 = Finite m e"
    by (simp only: round_to_double_unfold [OF N0] Let_def e_eq conds if_True if_False
        simp_thms m_def P_def)
  have "2 * 1000000 * m \<le> 2 * (N * P) + 1000000"
    unfolding m_def using assms(1) P by (intro round_half_even_bounds(2)) simp_all
  moreover have "N * P \<le> 9999999 * P"
    using assms(2) P by (intro mult_right_mono) simp_all
  ultimately have "m < 10 * P"
    using P by linarith
  then show ?thesis
    using e49 by (simp add: r float_less_int_def P_def)
qed

lemma ten_or_more_float_not_less:
  assumes "10000000 \<le> N"
  shows "\<not> float_less_int (round_to_double False N 1000000 0) 10"
proof -
  define k where "k = floor_log2 N 1000000"
  define e where "e = max (k - 52) (- 1074)"
  define m where "m = (if e \<le> 0 then round_half_even (N * 2 ^ nat (0 - e)) 1000000
                       else round_half_even N (1000000 * 2 ^ nat (e - 0)))"
  have N0: "N \<noteq> 0" and Npos: "0 < N" using assms by simp_all
  have e_eq: "max (floor_log2 N 1000000 + 0 - 52) (- 1074) = e"
    by (simp add: e_def k_def)
  have r: "round_to_double False N 1000000 0 =
             (if 971 < e \<or> (e = 971 \<and> 2 ^ 53 \<le> m) then Infinite False else Finite m e)"
    by (simp only: round_to_double_unfold [OF N0] Let_def e_eq m_def if_False)
  have big: "e \<le> 0 \<longrightarrow> 10 * 2 ^ nat (- e) \<le> m"
  proof
    assume e0: "e \<le> 0"
    define P where "P = (2::int) ^ nat (- e)"
    have P: "0 < P" by (simp add: P_def)
    have "10000000 * P \<le> N * P"
      using assms P by (intro mult_right_mono) simp_all
    then have "(10000000 * P) div 1000000 \<le> (N * P) div 1000000"
      by (intro zdiv_mono1) simp_all
    moreover have "(10000000 * P) div 1000000 = 10 * P"
      by simp
    moreover have "(N * P) div 1000000 \<le> round_half_even (N * P) 1000000"
      using Npos P by (intro round_half_even_bounds(1)) simp_all
    ultimately show "10 * 2 ^ nat (- e) \<le> m"
      using e0 by (simp add: m_def P_def)
  qed
  have huge: "0 < e \<longrightarrow> 10 \<le> m"
  proof
    assume e0: "0 < e"
    then have ke: "k = e + 52" by (simp add: e_def max_def split: if_splits)
    then have k0: "0 \<le> k" using e0 by simp
    define Q where "Q = (1000000::int) * 2 ^ nat e"
    have Q: "0 < Q" by (simp add: Q_def)
    have "nat k = nat e + 52" using ke e0 by simp
    then have "(1000000::int) * 2 ^ nat k = Q * 2 ^ 52"
      by (simp add: Q_def power_add)
    moreover have "1000000 * 2 ^ nat k \<le> N"
      using floor_log2_lower [of N 1000000] Npos k0 by (simp add: k_def)
    ultimately have "Q * 2 ^ 52 \<le> N" by simp
    then have "(Q * 2 ^ 52) div Q \<le> N div Q"
      using Q by (intro zdiv_mono1) simp_all
    moreover have "(Q * 2 ^ 52) div Q = 2 ^ 52"
      using Q by simp
    moreover have "N div Q \<le> round_half_even N Q"
      using Npos Q by (intro round_half_even_bounds(1)) simp_all
    ultimately have "2 ^ 52 \<le> m"
      using e0 by (simp add: m_def Q_def)
    then show "10 \<le> m" by simp
  qed
  show ?thesis
  proof (cases "971 < e \<or> (e = 971 \<and> 2 ^ 53 \<le> m)")
    case True
    then show ?thesis by (simp add: r float_less_int_def)
  next
    case False
    then have rf: "round_to_double False N 1000000 0 = Finite m e"
      using r by simp
    show ?thesis
    proof (cases "e \<le> 0")
      case True
      with big have b: "10 * 2 ^ nat (- e) \<le> m" by simp
      show ?thesis
      proof (cases "e = 0")
        case True
        with b show ?thesis by (simp add: rf float_less_int_def)
      next
        case False
        with True b show ?thesis by (simp add: rf float_less_int_def)
      qed
    next
      case False
      with huge have "10 \<le> m" by simp
      moreover have "(1::int) \<le> 2 ^ nat e" by simp
      ultimately have "10 * 1 \<le> m * 2 ^ nat e"
        by (intro mult_mono) simp_all
      with False show ?thesis by (simp add: rf float_less_int_def)
    qed
  qed
qed

lemma zero_float_less: "float_less_int (round_to_double False 0 1000000 0) 10"
  by (simp add: round_to_double_def float_less_int_def)

lemma float_less_ten_iff:
  "0 \<le> N \<Longrightarrow> float_less_int (round_to_double False N 1000000 0) 10 \<longleftrightarrow> N < 10000000"
proof (cases "N = 0")
  case True
  then show ?thesis using zero_float_less by simp
next
  case False
  assume "0 \<le> N"
  with False have pos: "0 < N" by simp
  show ?thesis
  proof (cases "N < 10000000")
    case True
    with below_ten_float_less [OF pos] show ?thesis by simp
  next
    case False
    then have "10000000 \<le> N" by simp
    from ten_or_more_float_not_less [OF this] False show ?thesis by simp
  qed
qed

section \<open>Properties of the metadata parser\<close>

lemma get_timestamp_handles:
  assumes "next_handle w \<notin> set (open_handles w)"
  shows "open_handles (snd (get_timestamp get_metafile date_strings time_strings zero scene skip w))
           = open_handles w"
  using assms
  by (simp add: get_timestamp_def open_file_def close_file_def Let_def
      split: sum.splits option.splits)

lemma get_timestamp_script_handles:
  assumes "next_handle w \<notin> set (open_handles w)"
  shows "open_handles (snd (get_timestamp_script options_timestamp get_metafile2 date_strings
            time_strings zero scene tgis w)) = open_handles w"
  using assms
  by (simp add: get_timestamp_script_def open_file_def close_file_def Let_def
      split: sum.splits option.splits)

lemma get_timestamp_open_fails:
  "get_metafile scene = Inr metafile \<Longrightarrow> files w metafile = None \<Longrightarrow>
   get_timestamp get_metafile date_strings time_strings zero scene skip w
     = (Inl UnboundLocalError, w)"
  by (simp add: get_timestamp_def open_file_def)

lemma process_line_no_key:
  "\<not> key_line date_strings l \<Longrightarrow> \<not> key_line time_strings l \<Longrightarrow>
   process_line skip date_strings time_strings zero dt l = Inr dt"
  by (auto simp: process_line_def key_line_def Let_def)

lemma process_lines_no_key:
  "\<forall>l \<in> set ls. \<not> key_line date_strings l \<and> \<not> key_line time_strings l \<Longrightarrow>
   process_lines skip date_strings time_strings zero dt ls = Inr dt"
  by (induction ls) (simp_all add: process_line_no_key)

lemma process_line_script_no_key:
  "\<not> key_line date_strings l \<Longrightarrow> \<not> key_line time_strings l \<Longrightarrow>
   process_line_script date_strings time_strings zero dt l = Inr dt"
  by (auto simp: process_line_script_def key_line_def Let_def)

lemma process_lines_script_no_key:
  "\<forall>l \<in> set ls. \<not> key_line date_strings l \<and> \<not> key_line time_strings l \<Longrightarrow>
   process_lines_script date_strings time_strings zero dt ls = Inr dt"
  by (induction ls) (simp_all add: process_line_script_no_key)

lemma get_timestamp_script_text:
  "get_metafile scene tgis = Inr metafile \<Longrightarrow> files w metafile = Some (Text text) \<Longrightarrow>
   fst (get_timestamp_script [] get_metafile date_strings time_strings zero scene tgis w)
     = (case process_lines_script date_strings time_strings zero empty_date_time
               (readlines_text [] text) of
          Inl e \<Rightarrow> Inl e
        | Inr date_time \<Rightarrow> Inr (Parsed date_time))"
  by (simp add: get_timestamp_script_def open_file_def readlines_def Let_def)

lemma get_timestamp_text:
  "get_metafile scene = Inr metafile \<Longrightarrow> files w metafile = Some (Text text) \<Longrightarrow>
   fst (get_timestamp get_metafile date_strings time_strings zero scene skip w)
     = process_lines skip date_strings time_strings zero empty_date_time (readlines_text [] text)"
  by (simp add: get_timestamp_def open_file_def readlines_def Let_def)

lemma print_timestamp_empty:
  "print_timestamp name (Parsed empty_date_time) tgis = Inl KeyError"
  by (simp add: print_timestamp_def empty_date_time_def lookup_def)

lemma import_geotiffs_without_fields:
  assumes "get_metafile scene tgis = Inr metafile" and "files w metafile = Some (Text text)"
    and "\<forall>l \<in> set (readlines_text [] text).
           \<not> key_line date_strings l \<and> \<not> key_line time_strings l"
  shows "fst (get_timestamp_script [] get_metafile date_strings time_strings zero scene tgis w)
           = Inr (Parsed empty_date_time)"
    and "fst (import_geotiffs [] get_metafile date_strings time_strings zero rest scene tgis w)
           = Inl KeyError"
proof -
  show parsed: "fst (get_timestamp_script [] get_metafile date_strings time_strings zero
      scene tgis w) = Inr (Parsed empty_date_time)"
    using get_timestamp_script_text [where get_metafile = get_metafile and scene = scene
        and tgis = tgis, OF assms(1,2), of date_strings time_strings zero]
      process_lines_script_no_key [OF assms(3), of zero empty_date_time]
    by simp
  obtain r w1 where g: "get_timestamp_script [] get_metafile date_strings time_strings zero
      scene tgis w = (r, w1)"
    by (cases "get_timestamp_script [] get_metafile date_strings time_strings zero scene tgis w")
  with parsed have "r = Inr (Parsed empty_date_time)" by simp
  with g show "fst (import_geotiffs [] get_metafile date_strings time_strings zero rest
      scene tgis w) = Inl KeyError"
    by (simp add: import_geotiffs_def print_timestamp_empty)
qed

lemma time_of_line_timezone:
  "time_of_line skip zero dt line = Inr dt' \<Longrightarrow>
   timezone dt' = (if endswith (filter (\<lambda>c. c \<noteq> CHR 0x22) line) ''Z'' then Some zero
                   else timezone dt)"
  by (auto simp: time_of_line_def Let_def
      split: sum.splits list.splits option.splits if_splits prod.splits)

lemma process_line_timezone:
  assumes "process_line skip date_strings time_strings zero dt l = Inr dt'"
  shows "timezone dt' = (if key_line time_strings l \<and> carries_Z l then Some zero
                         else timezone dt)"
proof (cases "rstrip_newline l = []")
  case True
  with assms show ?thesis by (simp add: process_line_def key_line_def Let_def)
next
  case False
  let ?line = "rstrip_newline l"
  define first where "first =
     (if list_ex (\<lambda>x. contains x ?line) date_strings
      then (case value_of_line ?line of
              Inl e \<Rightarrow> Inl e
            | Inr d \<Rightarrow>
                (case validate_date_string d of
                   Inl e \<Rightarrow> Inl e
                 | Inr _ \<Rightarrow> Inr (dt\<lparr>date := Some d\<rparr>)))
      else Inr dt)"
  have pl: "process_line skip date_strings time_strings zero dt l =
     (case first of
        Inl e \<Rightarrow> Inl e
      | Inr dt1 \<Rightarrow>
          (if list_ex (\<lambda>x. contains x ?line) time_strings
           then time_of_line skip zero dt1 ?line else Inr dt1))"
    using False by (simp add: process_line_def Let_def first_def)
  obtain dt1 where f: "first = Inr dt1"
    using assms pl by (cases first) simp_all
  have d: "timezone dt1 = timezone dt"
    using f by (auto simp: first_def split: if_splits sum.splits)
  have t: "(if list_ex (\<lambda>x. contains x ?line) time_strings
             then time_of_line skip zero dt1 ?line else Inr dt1) = Inr dt'"
    using assms pl f by simp
  show ?thesis
  proof (cases "list_ex (\<lambda>x. contains x ?line) time_strings")
    case True
    with t have "time_of_line skip zero dt1 ?line = Inr dt'" by simp
    from time_of_line_timezone [OF this] d True False show ?thesis
      by (simp add: key_line_def carries_Z_def)
  next
    case False
    with t d show ?thesis by (simp add: key_line_def)
  qed
qed

lemma process_lines_timezone:
  "process_lines skip date_strings time_strings zero dt ls = Inr dt' \<Longrightarrow>
   timezone dt' = (if \<exists>l \<in> set ls. key_line time_strings l \<and> carries_Z l then Some zero
                   else timezone dt)"
proof (induction ls arbitrary: dt)
  case Nil
  then show ?case by simp
next
  case (Cons l ls)
  from Cons.prems obtain dt1 where
    one: "process_line skip date_strings time_strings zero dt l = Inr dt1"
    and more: "process_lines skip date_strings time_strings zero dt1 ls = Inr dt'"
    by (auto split: sum.splits)
  from Cons.IH [OF more] process_line_timezone [OF one] show ?case
    by auto
qed

lemma time_of_line_date:
  "time_of_line skip zero dt line = Inr dt' \<Longrightarrow> date dt' = date dt"
  by (auto simp: time_of_line_def Let_def
      split: sum.splits list.splits option.splits if_splits prod.splits)

lemma process_line_date:
  assumes "process_line skip date_strings time_strings zero dt l = Inr dt'"
    and "\<forall>d. date dt = Some d \<longrightarrow> strptime_date d \<noteq> None"
  shows "\<forall>d. date dt' = Some d \<longrightarrow> strptime_date d \<noteq> None"
proof (cases "rstrip_newline l = []")
  case True
  with assms show ?thesis by (simp add: process_line_def Let_def)
next
  case False
  let ?line = "rstrip_newline l"
  define first where "first =
     (if list_ex (\<lambda>x. contains x ?line) date_strings
      then (case value_of_line ?line of
              Inl e \<Rightarrow> Inl e
            | Inr d \<Rightarrow>
                (case validate_date_string d of
                   Inl e \<Rightarrow> Inl e
                 | Inr _ \<Rightarrow> Inr (dt\<lparr>date := Some d\<rparr>)))
      else Inr dt)"
  have pl: "process_line skip date_strings time_strings zero dt l =
     (case first of
        Inl e \<Rightarrow> Inl e
      | Inr dt1 \<Rightarrow>
          (if list_ex (\<lambda>x. contains x ?line) time_strings
           then time_of_line skip zero dt1 ?line else Inr dt1))"
    using False by (simp add: process_line_def Let_def first_def)
  obtain dt1 where f: "first = Inr dt1"
    using assms(1) pl by (cases first) simp_all
  have d: "\<forall>d. date dt1 = Some d \<longrightarrow> strptime_date d \<noteq> None"
    using f assms(2)
    by (auto simp: first_def validate_date_string_def split: if_splits sum.splits option.splits)
  have t: "(if list_ex (\<lambda>x. contains x ?line) time_strings
             then time_of_line skip zero dt1 ?line else Inr dt1) = Inr dt'"
    using assms(1) pl f by simp
  show ?thesis
  proof (cases "list_ex (\<lambda>x. contains x ?line) time_strings")
    case True
    with t have "time_of_line skip zero dt1 ?line = Inr dt'" by simp
    from time_of_line_date [OF this] d show ?thesis by simp
  next
    case False
    with t d show ?thesis by simp
  qed
qed

lemma process_lines_date:
  "process_lines skip date_strings time_strings zero dt ls = Inr dt' \<Longrightarrow>
   \<forall>d. date dt = Some d \<longrightarrow> strptime_date d \<noteq> None \<Longrightarrow>
   \<forall>d. date dt' = Some d \<longrightarrow> strptime_date d \<noteq> None"
proof (induction ls arbitrary: dt)
  case Nil
  then show ?case by simp
next
  case (Cons l ls)
  from Cons.prems(1) obtain dt1 where
    one: "process_line skip date_strings time_strings zero dt l = Inr dt1"
    and more: "process_lines skip date_strings time_strings zero dt1 ls = Inr dt'"
    by (auto split: sum.splits)
  from Cons.IH [OF more process_line_date [OF one Cons.prems(2)]] show ?case .
qed

lemma print_timestamp_no_timezone:
  "timezone t = None \<Longrightarrow> \<forall>d. date t = Some d \<longrightarrow> strptime_date d \<noteq> None \<Longrightarrow>
   print_timestamp name (Parsed t) tgis = Inl KeyError"
  by (auto simp: print_timestamp_def lookup_def split: option.splits)

section \<open>Properties of \<^verbatim>\<open>float(...)\<close> on decimal strings\<close>

lemma split_first_None: "c \<notin> set s \<Longrightarrow> split_first (c # cs) s = None"
  by (induction s) (auto simp: startswith_def)

lemma isdigit_parts:
  assumes "isdigit s"
  shows "s \<noteq> []" and "list_all is_digit s" and "is_digit (hd s)" and "is_digit (last s)"
    and "CHR ''.'' \<notin> set s" and "CHR ''e'' \<notin> set s"
  using assms by (auto simp: isdigit_def list_all_iff dest: digit_not_sign)

lemma map_lower_digits: "list_all is_digit s \<Longrightarrow> map lower s = s"
  by (induction s) (simp_all add: lower_digit)

lemma not_word_digits:
  "is_digit (hd s) \<Longrightarrow> s \<noteq> ''inf'' \<and> s \<noteq> ''infinity'' \<and> s \<noteq> ''nan''"
  by (auto simp: is_digit_iff)

lemma py_float_digits:
  assumes "isdigit d"
  shows "py_float d = Some (round_to_double False (digits_to_int d) 1 0)"
proof -
  note p = isdigit_parts [OF assms]
  have st: "strip_with is_py_space d = d"
    using p(1,3,4) by (intro strip_with_id) (auto dest: digit_not_space)
  have sign: "\<not> (d \<noteq> [] \<and> hd d = CHR ''-'')"
    "\<not> (d \<noteq> [] \<and> (hd d = CHR ''-'' \<or> hd d = CHR ''+''))"
    using p(3) by (auto dest: digit_not_sign)
  have low: "map lower d = d"
    using p(2) by (rule map_lower_digits)
  have words: "d \<noteq> ''inf''" "d \<noteq> ''infinity''" "d \<noteq> ''nan''"
    using not_word_digits [OF p(3)] by simp_all
  have noe: "split_first ''e'' d = None"
    using p(6) by (rule split_first_None)
  have mant: "mantissa_val d = Some (digits_to_int d, 0)"
    using split_first_None [OF p(5), of "[]"] digitpart_digits [OF assms]
      digitpart_val_digits [OF assms]
    by (simp add: mantissa_val_def)
  have "py_float d = Some (round_to_double False (digits_to_int d * 10 ^ nat 0) 1 0)"
    by (simp only: py_float_def Let_def st sign low words noe mant if_False if_True
        simp_thms option.case prod.case diff_0 minus_minus nat_int of_nat_0 order_refl
        diff_self)
  then show ?thesis by simp
qed

lemma py_float_decimal:
  assumes "isdigit ip" and "isdigit fp"
  shows "py_float (ip @ ''.'' @ fp)
           = Some (round_to_double False (digits_to_int (ip @ fp)) (10 ^ length fp) 0)"
proof -
  note i = isdigit_parts [OF assms(1)]
  note f = isdigit_parts [OF assms(2)]
  let ?s = "ip @ CHR ''.'' # fp"
  have hd_s: "hd ?s = hd ip" and last_s: "last ?s = last fp"
    using i(1) f(1) by simp_all
  have st: "strip_with is_py_space ?s = ?s"
    using i(3) f(4) hd_s last_s by (intro strip_with_id) (auto dest: digit_not_space)
  have sign: "\<not> (?s \<noteq> [] \<and> hd ?s = CHR ''-'')"
    "\<not> (?s \<noteq> [] \<and> (hd ?s = CHR ''-'' \<or> hd ?s = CHR ''+''))"
    using i(3) hd_s by (auto dest: digit_not_sign)
  have low: "map lower ?s = ?s"
    using i(2) f(2) by (simp add: map_lower_digits lower_dot)
  have words: "?s \<noteq> ''inf''" "?s \<noteq> ''infinity''" "?s \<noteq> ''nan''"
    using not_word_digits [of ?s] i(3) hd_s by simp_all
  have "CHR ''e'' \<notin> set ?s"
    using i(6) f(6) by simp
  then have noe: "split_first ''e'' ?s = None"
    by (rule split_first_None)
  have all: "list_all is_digit (ip @ fp)"
    using i(2) f(2) by simp
  have mant: "mantissa_val ?s = Some (digits_to_int (ip @ fp), length fp)"
    using split_first_dot [OF i(5), of fp] digitpart_digits [OF assms(1)]
      digitpart_digits [OF assms(2)] i(1) f(2)
    by (simp add: mantissa_val_def digitpart_val_def filter_digits [OF i(2)]
        filter_digits [OF f(2)])
  have fp0: "\<not> 0 \<le> - int (length fp)"
    using f(1) by simp
  have "py_float ?s
          = Some (round_to_double False (digits_to_int (ip @ fp)) (10 ^ length fp) 0)"
    by (simp only: py_float_def Let_def st sign low words noe mant fp0 if_False if_True
        simp_thms option.case prod.case diff_0 minus_minus nat_int)
  then show ?thesis by simp
qed

lemma split_char_two:
  "c \<notin> set xs \<Longrightarrow> c \<notin> set ys \<Longrightarrow> split_char c (xs @ c # ys) = [xs, ys]"
  by (simp add: split_char_append split_char_no_sep)

lemma float_of_int_nonneg: "0 \<le> i \<Longrightarrow> nonneg_float (float_of_int i)"
  by (simp add: float_of_int_def round_to_double_nonneg)

section \<open>Properties of the rendering of seconds\<close>

lemma format_6f_finite:
  assumes "0 \<le> m"
  shows "format_6f (Finite m e)
           = digits_of (micros m e div 1000000) @ ''.''
             @ zfill (digits_of (micros m e mod 1000000)) 6"
  using assms by (simp add: format_6f_def Let_def)

lemma add_leading_zeroes_decimal:
  assumes "isdigit ip" and "isdigit fp"
  shows "add_leading_zeroes (ip @ ''.'' @ fp) n = Inr (zfill ip n @ ''.'' @ fp)"
  using split_char_two [OF isdigit_parts(5) [OF assms(1)] isdigit_parts(5) [OF assms(2)]]
  by (simp add: add_leading_zeroes_def)

lemma add_leading_zeroes_inf: "add_leading_zeroes ''inf'' n = Inl IndexError"
  by (simp add: add_leading_zeroes_def)

lemma drop_fraction_rendered:
  assumes "0 \<le> a" and "0 \<le> b" and "b < 1000000"
  shows "drop_fraction_below_ten (zfill (digits_of a) 2 @ ''.'' @ zfill (digits_of b) 6)
           = Inr (if a < 10 then zfill (digits_of a) 2
                  else zfill (digits_of a) 2 @ ''.'' @ zfill (digits_of b) 6)"
proof -
  let ?ip = "zfill (digits_of a) 2" and ?fp = "zfill (digits_of b) 6"
  have ip: "isdigit ?ip" and fp: "isdigit ?fp"
    using assms(1,2) by (simp_all add: isdigit_zfill isdigit_digits_of)
  have len: "length ?fp = 6"
    using assms(2,3) by (rule length_zfill_6)
  have val: "digits_to_int (?ip @ ?fp) = a * 1000000 + b"
    using assms(1,2) by (simp add: digits_to_int_append len digits_to_int_zfill)
  have pf: "py_float (?ip @ ''.'' @ ?fp)
              = Some (round_to_double False (a * 1000000 + b) 1000000 0)"
    using py_float_decimal [OF ip fp] by (simp add: val len)
  have nonneg: "0 \<le> a * 1000000 + b"
    using assms(1,2) by simp
  have less: "float_less_int (round_to_double False (a * 1000000 + b) 1000000 0) 10
                \<longleftrightarrow> a < 10"
    using float_less_ten_iff [OF nonneg] assms(2,3) by auto
  have hd: "hd (split_char CHR ''.'' (?ip @ ''.'' @ ?fp)) = ?ip"
    using split_char_two [OF isdigit_parts(5) [OF ip] isdigit_parts(5) [OF fp]] by simp
  show ?thesis
    by (simp only: drop_fraction_below_ten_def pf option.case less hd)
qed


lemma length_zfill_2:
  assumes "0 \<le> a"
  shows "2 \<le> length (zfill (digits_of a) 2)"
    and "a < 10 \<Longrightarrow> length (zfill (digits_of a) 2) = 2"
proof -
  have z: "zfill (digits_of a) 2 = replicate (2 - length (digits_of a)) CHR ''0'' @ digits_of a"
    using assms by (simp add: zfill_digits isdigit_digits_of)
  show "2 \<le> length (zfill (digits_of a) 2)"
    by (simp add: z)
  assume "a < 10"
  then have "length (digits_of a) \<le> 1"
    using length_digits_of [of 1 a] by simp
  moreover have "digits_of a \<noteq> []"
    by (rule digits_of_not_Nil)
  ultimately have "length (digits_of a) = 1"
    by (cases "digits_of a") auto
  then show "length (zfill (digits_of a) 2) = 2"
    by (simp add: z)
qed

section \<open>The examples, evaluated\<close>

lemma example_parse:
  "fst (get_timestamp example_metafile DATE_STRINGS TIME_STRINGS ZERO_TIMEZONE ''/data/LC08''
          False example_world)
     = Inr \<lparr>date = Some ''2015-06-12'', hours = Some ''09'', minutes = Some ''15'',
            seconds = Some ''23.123456'', timezone = Some ''+0000''\<rparr>"
  by code_simp

text \<open>The script's own \<^verbatim>\<open>get_timestamp\<close> raises \<^verbatim>\<open>NameError\<close> on the time line of the same
  file, with and without \<^verbatim>\<open>-t\<close>.\<close>

lemma example_script_parse:
  "fst (get_timestamp_script '''' (\<lambda>scene tgis. example_metafile scene) DATE_STRINGS
          TIME_STRINGS ZERO_TIMEZONE ''/data/LC08'' False example_world) = Inl NameError"
  "fst (get_timestamp_script '''' (\<lambda>scene tgis. example_metafile scene) DATE_STRINGS
          TIME_STRINGS ZERO_TIMEZONE ''/data/LC08'' True example_world) = Inl NameError"
  by code_simp+

lemma example_report:
  "print_timestamp ''LC08''
     (Parsed \<lparr>date = Some ''2015-06-12'', hours = Some ''09'', minutes = Some ''15'',
            seconds = Some ''23.123456'', timezone = Some ''+0000''\<rparr>) False
     = Inr (''Date'' @ TAB @ TAB @ ''Time'' @ NEWLINE @ TAB @ ''2015-06-12'' @ TAB
            @ ''09:15:23.123456 +0000'' @ NEWLINE @ NEWLINE)"
  by code_simp

lemma example_report_tgis:
  "print_timestamp ''LC08''
     (Parsed \<lparr>date = Some ''2015-06-12'', hours = Some ''09'', minutes = Some ''15'',
            seconds = Some ''23.123456'', timezone = Some ''+0000''\<rparr>) True
     = Inl NameError"
  by code_simp

lemma example_store_string:
  "set_timestamp MONTHS ''B1''
     (Parsed \<lparr>date = Some ''2015-06-12'', hours = Some ''09'', minutes = Some ''15'',
            seconds = Some ''23.123456'', timezone = Some ''+0000''\<rparr>) []
     = (Inr (), [R_timestamp ''B1'' ''12 June 2015 09:15:23.123456''])"
  by code_simp

lemma example_report_differs:
  "''Date'' @ TAB @ TAB @ ''Time'' @ NEWLINE @ TAB @ ''2015-06-12'' @ TAB
     @ ''09:15:23.123456 +0000'' @ NEWLINE @ NEWLINE \<noteq> ''12 Jun 2015  09:15:23.123456 +0000''"
  "\<not> contains ''12 Jun 2015'' (''Date'' @ TAB @ TAB @ ''Time'' @ NEWLINE @ TAB @ ''2015-06-12''
       @ TAB @ ''09:15:23.123456 +0000'' @ NEWLINE @ NEWLINE)"
  by code_simp+

lemma example_9_5:
  "fst (get_timestamp example_metafile DATE_STRINGS TIME_STRINGS ZERO_TIMEZONE
          ''/data/LC08_9_5'' False example_world)
     = Inr \<lparr>date = Some ''2015-06-12'', hours = Some ''10'', minutes = Some ''20'',
            seconds = Some ''09'', timezone = Some ''+0000''\<rparr>"
  "fst (get_timestamp example_metafile DATE_STRINGS TIME_STRINGS ZERO_TIMEZONE
          ''/data/LC08_09_5'' False example_world)
     = Inr \<lparr>date = Some ''2015-06-12'', hours = Some ''10'', minutes = Some ''20'',
            seconds = Some ''09'', timezone = Some ''+0000''\<rparr>"
  "seconds_with_microseconds ''10:20:9.5'' ''9'' = Inr ''09.000000''"
  "seconds_with_microseconds ''10:20:09.5000000'' ''09'' = Inr ''09.500000''"
  "drop_fraction_below_ten ''09.500000'' = Inr ''09''"
  by code_simp+

lemma example_19_5:
  "CHR ''.'' \<notin> set ''10:20:19''" "isdigit ''5000000''" "isdigit ''19''"
  "seconds_with_microseconds (''10:20:19'' @ ''.'' @ ''5000000'') ''19'' = Inr ''19.500000''"
  "(case float_add (float_of_int (digits_to_int ''19''))
           (float_round6 (float_div_int (round_to_double False (digits_to_int ''5000000'') 1 0)
              10000000)) of
      Finite m e \<Rightarrow> micros m e | _ \<Rightarrow> 0) = 19500000"
  by code_simp+

lemma example_no_fields:
  "example_metafile ''/data/LC08_no_fields'' = Inr ''/data/LC08_no_fields/LC08_MTL.txt''"
  "files example_world ''/data/LC08_no_fields/LC08_MTL.txt''
     = Some (Text example_metadata_no_fields)"
  "\<forall>l \<in> set (readlines_text [] example_metadata_no_fields).
     \<not> key_line DATE_STRINGS l \<and> \<not> key_line TIME_STRINGS l"
  "fst (get_timestamp example_metafile DATE_STRINGS TIME_STRINGS ZERO_TIMEZONE
          ''/data/LC08_no_fields'' False example_world) = Inr empty_date_time"
  "fst (get_timestamp_script [] (\<lambda>scene tgis. example_metafile scene) DATE_STRINGS
          TIME_STRINGS ZERO_TIMEZONE ''/data/LC08_no_fields'' False example_world)
     = Inr (Parsed empty_date_time)"
  by code_simp+

lemma example_no_Z:
  "example_metafile ''/data/LC08_no_Z'' = Inr ''/data/LC08_no_Z/LC08_MTL.txt''"
  "files example_world ''/data/LC08_no_Z/LC08_MTL.txt'' = Some (Text example_metadata_no_Z)"
  "fst (get_timestamp example_metafile DATE_STRINGS TIME_STRINGS ZERO_TIMEZONE
          ''/data/LC08_no_Z'' False example_world)
     = Inr \<lparr>date = Some ''2015-06-12'', hours = Some ''09'', minutes = Some ''15'',
            seconds = Some ''23.123456'', timezone = None\<rparr>"
  "\<not> (\<exists>l \<in> set (readlines_text [] example_metadata_no_Z).
         key_line TIME_STRINGS l \<and> carries_Z l)"
  "print_timestamp ''LC08_no_Z''
     (Parsed \<lparr>date = Some ''2015-06-12'', hours = Some ''09'', minutes = Some ''15'',
            seconds = Some ''23.123456'', timezone = None\<rparr>) False = Inl KeyError"
  by code_simp+

lemma example_handles:
  "next_handle example_world \<notin> set (open_handles example_world)"
  "open_handles example_world = []"
  "example_metafile ''/data/nowhere'' = Inr ''/data/nowhere/LC08_MTL.txt''"
  "files example_world ''/data/nowhere/LC08_MTL.txt'' = None"
  "fst (get_timestamp example_metafile DATE_STRINGS TIME_STRINGS ZERO_TIMEZONE
          ''/data/LC08_binary'' False example_world) = Inl ReadError"
  "fst (get_timestamp example_metafile DATE_STRINGS TIME_STRINGS ZERO_TIMEZONE
          ''/data/LC08_bad_date'' False example_world) = Inl ValueError"
  by code_simp+

section \<open>Properties of the ordering of band file names\<close>

subsection \<open>The band number\<close>

lemma digits_to_nat_int: "int (digits_to_nat s) = digits_to_int s"
  by (induction s rule: rev_induct) (simp_all add: digits_to_nat_def digits_to_int_def)

lemma isdigit_str_isdigit: "isdigit s \<Longrightarrow> str_isdigit s"
  by (simp add: isdigit_def str_isdigit_def list_all_iff)

lemma superscript_digit_plain:
  assumes "is_superscript_digit c"
  shows "\<not> is_digit c" and "\<not> is_py_space c" and "c \<noteq> CHR ''-''" and "c \<noteq> CHR ''+''"
    and "c \<noteq> CHR ''_''"
  using assms by (auto simp: is_superscript_digit_def is_digit_iff is_py_space_def)

lemma py_int_superscript:
  assumes s: "str_isdigit s" and n: "\<not> isdigit s"
  shows "py_int s = None"
proof -
  from s have ne: "s \<noteq> []"
    and all: "\<forall>c \<in> set s. is_digit c \<or> is_superscript_digit c"
    by (simp_all add: str_isdigit_def list_all_iff)
  from n ne obtain c where c: "c \<in> set s" "\<not> is_digit c"
    by (auto simp: isdigit_def list_all_iff)
  with all have sup: "is_superscript_digit c" by blast
  have plain: "\<not> is_py_space d \<and> d \<noteq> CHR ''-'' \<and> d \<noteq> CHR ''+''" if "d \<in> set s" for d
    using all that digit_not_space [of d] digit_not_sign [of d] superscript_digit_plain [of d]
    by blast
  have h: "hd s \<in> set s" and l: "last s \<in> set s"
    using ne by simp_all
  have st: "strip_with is_py_space s = s"
    using ne plain [OF h] plain [OF l] by (intro strip_with_id) simp_all
  have "\<not> list_all (\<lambda>c. is_digit c \<or> c = CHR ''_'') s"
    using c sup superscript_digit_plain(5) [of c] by (auto simp: list_all_iff)
  then have "\<not> digitpart s"
    by (simp add: digitpart_def)
  then show ?thesis
    using plain [OF h] by (simp add: py_int_def st Let_def)
qed

lemma py_int_str_isdigit:
  "str_isdigit s \<Longrightarrow>
   py_int s = None \<longleftrightarrow> \<not> isdigit s \<or> max_str_digits < int (length s)"
  using py_int_superscript [of s] py_int_digits_limit [of s]
  by (cases "isdigit s") auto

lemma band_number_digits:
  "isdigit (band_token item) \<Longrightarrow> int (length (band_token item)) \<le> max_str_digits \<Longrightarrow>
   band_number item = Inr (enat (digits_to_nat (band_token item)))"
  using digits_to_nat_int [of "band_token item"]
  by (simp add: band_number_def isdigit_str_isdigit py_int_digits)

lemma band_number_rejected:
  "str_isdigit (band_token item) \<Longrightarrow> py_int (band_token item) = None \<Longrightarrow>
   band_number item = Inl ValueError"
  by (simp add: band_number_def)

lemma band_number_no_digits:
  "\<not> str_isdigit (band_token item) \<Longrightarrow> band_number item = Inr \<infinity>"
  by (simp add: band_number_def)

lemma band_number_of_name:
  "\<not> contains ''_B'' (pre @ ''_'') \<Longrightarrow> isdigit ds \<Longrightarrow> int (length ds) \<le> max_str_digits \<Longrightarrow>
   band_number (pre @ ''_B'' @ ds @ ''.'' @ ext) = Inr (enat (digits_to_nat ds))"
  using band_token_of_name [of pre ds ext] isdigit_no_dot [of ds]
    band_number_digits [of "pre @ ''_B'' @ ds @ ''.'' @ ext"]
  by simp

lemma band_number_total:
  "\<not> (str_isdigit (band_token item) \<and> py_int (band_token item) = None) \<Longrightarrow>
   \<exists>n. band_number item = Inr n"
  by (auto simp: band_number_def)

lemma band_number_error: "band_number item = Inl e \<Longrightarrow> e = ValueError"
  by (auto simp: band_number_def split: if_splits option.splits)

lemma band_sort_key_Inr:
  "band_sort_key item = Inr k \<longleftrightarrow> (\<exists>n. band_number item = Inr n \<and> k = (n, item))"
  by (auto simp: band_sort_key_def split: sum.splits)

lemma band_sort_key_Inl: "band_sort_key item = Inl e \<longleftrightarrow> band_number item = Inl e"
  by (auto simp: band_sort_key_def split: sum.splits)

subsection \<open>The keys of a list\<close>

lemma band_sort_keys_error: "band_sort_keys bands = Inl e \<Longrightarrow> e = ValueError"
  by (induction bands arbitrary: e)
    (auto simp: band_sort_key_Inl split: sum.splits dest: band_number_error)

lemma band_sort_keys_raises:
  "b \<in> set bands \<Longrightarrow> band_number b = Inl e \<Longrightarrow> band_sort_keys bands = Inl ValueError"
proof (induction bands)
  case Nil
  then show ?case by simp
next
  case (Cons a bands)
  show ?case
  proof (cases "band_sort_key a")
    case (Inl e')
    then have "e' = ValueError"
      using band_number_error [of a e'] by (simp add: band_sort_key_Inl)
    with Inl show ?thesis by simp
  next
    case (Inr k)
    then have "band_number a \<noteq> Inl e"
      by (auto simp: band_sort_key_Inr)
    with Cons.prems have "b \<in> set bands" by auto
    from Cons.IH [OF this Cons.prems(2)] Inr show ?thesis by simp
  qed
qed

lemma band_sort_keys_total:
  "\<forall>b \<in> set bands. \<exists>n. band_number b = Inr n \<Longrightarrow>
   band_sort_keys bands = Inr (map (\<lambda>b. (projr (band_number b), b)) bands)"
  by (induction bands) (auto simp: band_sort_key_def)

subsection \<open>Sorting by a key\<close>

lemma insort_key_undecorate:
  "\<forall>p \<in> set ps. fst p = f (snd p) \<Longrightarrow>
   map snd (insort_key fst (f x, x) ps) = insort_key f x (map snd ps)"
  by (induction ps) auto

lemma sort_key_undecorate:
  "map snd (sort_key fst (map (\<lambda>x. (f x, x)) xs)) = sort_key f xs"
proof (induction xs)
  case Nil
  show ?case by simp
next
  case (Cons x xs)
  have "\<forall>p \<in> set (sort_key fst (map (\<lambda>x. (f x, x)) xs)). fst p = f (snd p)"
    by auto
  from insort_key_undecorate [OF this, of x] Cons show ?case
    by simp
qed

lemma zip_decorate: "zip (map f xs) xs = map (\<lambda>x. (f x, x)) xs"
  by (induction xs) simp_all

lemma sort_list_of_bands_total:
  assumes "\<forall>b \<in> set bands. \<exists>n. band_number b = Inr n"
  shows "sort_list_of_bands bands = Inr (sort_key (\<lambda>b. (projr (band_number b), b)) bands)"
  using band_sort_keys_total [OF assms]
    zip_decorate [of "\<lambda>b. (projr (band_number b), b)" bands]
    sort_key_undecorate [of "\<lambda>b. (projr (band_number b), b)" bands]
  by (simp add: sort_list_of_bands_def)

lemma sort_list_of_bands_raises:
  "b \<in> set bands \<Longrightarrow> str_isdigit (band_token b) \<Longrightarrow> py_int (band_token b) = None \<Longrightarrow>
   sort_list_of_bands bands = Inl ValueError"
  using band_sort_keys_raises [of b bands ValueError] band_number_rejected [of b]
  by (simp add: sort_list_of_bands_def)

subsection \<open>The sorted list\<close>

lemma sorted_bands_nth_mono:
  assumes total: "\<forall>b \<in> set bands. \<exists>n. band_number b = Inr n"
    and "i < j" and "j < length bands"
  shows "\<exists>m n. band_number (sort_key (\<lambda>b. (projr (band_number b), b)) bands ! i) = Inr m
           \<and> band_number (sort_key (\<lambda>b. (projr (band_number b), b)) bands ! j) = Inr n
           \<and> (m < n \<or> (m = n
                \<and> sort_key (\<lambda>b. (projr (band_number b), b)) bands ! i
                    \<le> sort_key (\<lambda>b. (projr (band_number b), b)) bands ! j))"
proof -
  let ?key = "\<lambda>b. (projr (band_number b), b)"
  let ?ys = "sort_key ?key bands"
  have len: "length ?ys = length bands" by simp
  have "sorted (map ?key ?ys)" by simp
  then have "map ?key ?ys ! i \<le> map ?key ?ys ! j"
    using assms(2,3) len by (intro sorted_nth_mono) simp_all
  then have le: "?key (?ys ! i) \<le> ?key (?ys ! j)"
    using assms(2,3) len by simp
  have "?ys ! i \<in> set bands" and "?ys ! j \<in> set bands"
    using assms(2,3) len nth_mem [of i ?ys] nth_mem [of j ?ys] by simp_all
  with total obtain m n where
    m: "band_number (?ys ! i) = Inr m" and n: "band_number (?ys ! j) = Inr n"
    by blast
  from le m n have "m < n \<or> (m = n \<and> ?ys ! i \<le> ?ys ! j)"
    by (auto simp: less_eq_prod_def)
  with m n show ?thesis by blast
qed

text \<open>
  Claim C5. The sort raises \<^verbatim>\<open>ValueError\<close> when the band token of some name of the list is
  accepted by \<^verbatim>\<open>isdigit\<close> and rejected by \<^verbatim>\<open>int\<close>: nothing is sorted then. A token that \<^verbatim>\<open>isdigit\<close>
  accepts is rejected by \<^verbatim>\<open>int\<close> when it is not made of decimal digits, as a superscript two
  (\<open>U+00B2\<close>) between \<open>x_B\<close> and \<open>.TIF\<close>, or has more than 4300 of them. For every other
  list the sorted list is a rearrangement of the input in which an earlier name has a
  smaller band number than a later one or, at equal band numbers, is lexically not greater;
  a name without a numeric band token (band number infinity) is never followed by a numeric
  one; and sorting the sorted list changes nothing, so repeated sorting gives the same
  order. The band number of a name \<open>pre_B<digits>.ext\<close> is the integer the digits denote, so
  9 precedes 10 and 11.
\<close>

theorem sort_list_of_bands_order:
  "((\<exists>b \<in> set bands. str_isdigit (band_token b) \<and> py_int (band_token b) = None) \<longrightarrow>
      sort_list_of_bands bands = Inl ValueError)
   \<and> (\<not> (\<exists>b \<in> set bands. str_isdigit (band_token b) \<and> py_int (band_token b) = None) \<longrightarrow>
      (\<exists>sorted_bands. sort_list_of_bands bands = Inr sorted_bands
         \<and> mset sorted_bands = mset bands
         \<and> (\<forall>i j. i < j \<and> j < length sorted_bands \<longrightarrow>
              (\<exists>m n. band_number (sorted_bands ! i) = Inr m
                 \<and> band_number (sorted_bands ! j) = Inr n
                 \<and> (m < n \<or> (m = n \<and> sorted_bands ! i \<le> sorted_bands ! j))))
         \<and> (\<forall>i j. i < j \<and> j < length sorted_bands
              \<and> band_number (sorted_bands ! i) = Inr \<infinity> \<longrightarrow>
              band_number (sorted_bands ! j) = Inr \<infinity>)
         \<and> sort_list_of_bands sorted_bands = Inr sorted_bands))
   \<and> (\<forall>token. str_isdigit token \<longrightarrow>
        (py_int token = None \<longleftrightarrow> \<not> isdigit token \<or> max_str_digits < int (length token)))
   \<and> (\<forall>pre ds ext. \<not> contains ''_B'' (pre @ ''_'') \<and> isdigit ds
          \<and> int (length ds) \<le> max_str_digits \<longrightarrow>
        band_number (pre @ ''_B'' @ ds @ ''.'' @ ext) = Inr (enat (digits_to_nat ds)))
   \<and> (\<forall>item. \<not> str_isdigit (band_token item) \<longrightarrow> band_number item = Inr \<infinity>)
   \<and> (\<forall>item. str_isdigit (band_token item) \<and> py_int (band_token item) = None \<longrightarrow>
        band_number item = Inl ValueError)"
proof -
  let ?bad = "\<exists>b \<in> set bands. str_isdigit (band_token b) \<and> py_int (band_token b) = None"
  let ?key = "\<lambda>b. (projr (band_number b), b)"
  let ?ys = "sort_key ?key bands"
  have raises: "?bad \<longrightarrow> sort_list_of_bands bands = Inl ValueError"
    using sort_list_of_bands_raises by blast
  have sorts: "\<exists>sorted_bands. sort_list_of_bands bands = Inr sorted_bands
         \<and> mset sorted_bands = mset bands
         \<and> (\<forall>i j. i < j \<and> j < length sorted_bands \<longrightarrow>
              (\<exists>m n. band_number (sorted_bands ! i) = Inr m
                 \<and> band_number (sorted_bands ! j) = Inr n
                 \<and> (m < n \<or> (m = n \<and> sorted_bands ! i \<le> sorted_bands ! j))))
         \<and> (\<forall>i j. i < j \<and> j < length sorted_bands
              \<and> band_number (sorted_bands ! i) = Inr \<infinity> \<longrightarrow>
              band_number (sorted_bands ! j) = Inr \<infinity>)
         \<and> sort_list_of_bands sorted_bands = Inr sorted_bands"
    if good: "\<not> ?bad"
  proof -
    have total: "\<forall>b \<in> set bands. \<exists>n. band_number b = Inr n"
      using good band_number_total by blast
    then have total_ys: "\<forall>b \<in> set ?ys. \<exists>n. band_number b = Inr n"
      by simp
    have s: "sort_list_of_bands bands = Inr ?ys"
      by (rule sort_list_of_bands_total [OF total])
    have perm: "mset ?ys = mset bands"
      by simp
    have order: "\<exists>m n. band_number (?ys ! i) = Inr m \<and> band_number (?ys ! j) = Inr n
                 \<and> (m < n \<or> (m = n \<and> ?ys ! i \<le> ?ys ! j))"
      if "i < j \<and> j < length ?ys" for i j
      using sorted_bands_nth_mono [OF total, of i j] that by simp
    have last: "band_number (?ys ! j) = Inr \<infinity>"
      if "i < j \<and> j < length ?ys \<and> band_number (?ys ! i) = Inr \<infinity>" for i j
    proof -
      from order [of i j] that obtain m n where
        "band_number (?ys ! i) = Inr m" "band_number (?ys ! j) = Inr n"
        "m < n \<or> (m = n \<and> ?ys ! i \<le> ?ys ! j)"
        by blast
      with that show ?thesis by auto
    qed
    have "sort_key ?key ?ys = ?ys"
      by (rule sort_key_id_if_sorted) simp
    then have idem: "sort_list_of_bands ?ys = Inr ?ys"
      using sort_list_of_bands_total [OF total_ys] by simp
    from s perm order last idem show ?thesis
      by blast
  qed
  have rejects: "\<forall>token. str_isdigit token \<longrightarrow>
        (py_int token = None \<longleftrightarrow> \<not> isdigit token \<or> max_str_digits < int (length token))"
    using py_int_str_isdigit by blast
  have name: "\<forall>pre ds ext. \<not> contains ''_B'' (pre @ ''_'') \<and> isdigit ds
          \<and> int (length ds) \<le> max_str_digits \<longrightarrow>
        band_number (pre @ ''_B'' @ ds @ ''.'' @ ext) = Inr (enat (digits_to_nat ds))"
    using band_number_of_name by blast
  have none: "\<forall>item. \<not> str_isdigit (band_token item) \<longrightarrow> band_number item = Inr \<infinity>"
    using band_number_no_digits by blast
  have bad: "\<forall>item. str_isdigit (band_token item) \<and> py_int (band_token item) = None \<longrightarrow>
        band_number item = Inl ValueError"
    using band_number_rejected by blast
  from raises sorts rejects name none bad show ?thesis
    by blast
qed

lemma sort_eleven_bands:
  "sort_list_of_bands
     [''LC08_B11.TIF'', ''LC08_B2.TIF'', ''LC08_BQA.TIF'', ''LC08_B10.TIF'', ''LC08_B1.TIF'',
      ''LC08_B9.TIF'', ''LC08_B3.TIF'', ''LC08_B8.TIF'', ''LC08_B4.TIF'', ''LC08_B7.TIF'',
      ''LC08_B5.TIF'', ''LC08_B6.TIF''] =
     Inr [''LC08_B1.TIF'', ''LC08_B2.TIF'', ''LC08_B3.TIF'', ''LC08_B4.TIF'', ''LC08_B5.TIF'',
      ''LC08_B6.TIF'', ''LC08_B7.TIF'', ''LC08_B8.TIF'', ''LC08_B9.TIF'', ''LC08_B10.TIF'',
      ''LC08_B11.TIF'', ''LC08_BQA.TIF'']"
  "\<not> (\<exists>b \<in> set
     [''LC08_B11.TIF'', ''LC08_B2.TIF'', ''LC08_BQA.TIF'', ''LC08_B10.TIF'', ''LC08_B1.TIF'',
      ''LC08_B9.TIF'', ''LC08_B3.TIF'', ''LC08_B8.TIF'', ''LC08_B4.TIF'', ''LC08_B7.TIF'',
      ''LC08_B5.TIF'', ''LC08_B6.TIF'']. str_isdigit (band_token b) \<and> py_int (band_token b) = None)"
  by code_simp+

lemma band_number_examples:
  "band_number ''LC08_B9.TIF'' = Inr 9"
  "band_number ''LC08_B10.TIF'' = Inr 10"
  "band_number ''LC08_B11.TIF'' = Inr 11"
  "band_number ''LC08_BQA.TIF'' = Inr \<infinity>"
  "\<not> str_isdigit (band_token ''LC08_BQA.TIF'')"
  "\<not> contains ''_B'' ''LC08_''"
  "isdigit ''10''"
  "int (length ''10'') \<le> max_str_digits"
  "digits_to_nat ''10'' = 10"
  by code_simp+

lemma sort_superscript_band:
  "\<exists>b \<in> set [''x_B'' @ [CHR 0xB2] @ ''.TIF'', ''x_B1.TIF''].
     str_isdigit (band_token b) \<and> py_int (band_token b) = None"
  "band_token (''x_B'' @ [CHR 0xB2] @ ''.TIF'') = [CHR 0xB2]"
  "str_isdigit [CHR 0xB2]" "\<not> isdigit [CHR 0xB2]" "py_int [CHR 0xB2] = None"
  "band_number (''x_B'' @ [CHR 0xB2] @ ''.TIF'') = Inl ValueError"
  "sort_list_of_bands [''x_B'' @ [CHR 0xB2] @ ''.TIF'', ''x_B1.TIF''] = Inl ValueError"
  by code_simp+

theorem sort_list_of_bands_order_witness:
  "(\<exists>b \<in> set [''x_B'' @ [CHR 0xB2] @ ''.TIF'', ''x_B1.TIF''].
      str_isdigit (band_token b) \<and> py_int (band_token b) = None)
   \<and> sort_list_of_bands [''x_B'' @ [CHR 0xB2] @ ''.TIF'', ''x_B1.TIF''] = Inl ValueError
   \<and> str_isdigit [CHR 0xB2] \<and> \<not> isdigit [CHR 0xB2] \<and> py_int [CHR 0xB2] = None
   \<and> band_number (''x_B'' @ [CHR 0xB2] @ ''.TIF'') = Inl ValueError
   \<and> \<not> (\<exists>b \<in> set
       [''LC08_B11.TIF'', ''LC08_B2.TIF'', ''LC08_BQA.TIF'', ''LC08_B10.TIF'', ''LC08_B1.TIF'',
        ''LC08_B9.TIF'', ''LC08_B3.TIF'', ''LC08_B8.TIF'', ''LC08_B4.TIF'', ''LC08_B7.TIF'',
        ''LC08_B5.TIF'', ''LC08_B6.TIF'']. str_isdigit (band_token b) \<and> py_int (band_token b) = None)
   \<and> sort_list_of_bands
       [''LC08_B11.TIF'', ''LC08_B2.TIF'', ''LC08_BQA.TIF'', ''LC08_B10.TIF'', ''LC08_B1.TIF'',
        ''LC08_B9.TIF'', ''LC08_B3.TIF'', ''LC08_B8.TIF'', ''LC08_B4.TIF'', ''LC08_B7.TIF'',
        ''LC08_B5.TIF'', ''LC08_B6.TIF''] =
       Inr [''LC08_B1.TIF'', ''LC08_B2.TIF'', ''LC08_B3.TIF'', ''LC08_B4.TIF'', ''LC08_B5.TIF'',
        ''LC08_B6.TIF'', ''LC08_B7.TIF'', ''LC08_B8.TIF'', ''LC08_B9.TIF'', ''LC08_B10.TIF'',
        ''LC08_B11.TIF'', ''LC08_BQA.TIF'']
   \<and> sort_list_of_bands
       [''LC08_B1.TIF'', ''LC08_B2.TIF'', ''LC08_B3.TIF'', ''LC08_B4.TIF'', ''LC08_B5.TIF'',
        ''LC08_B6.TIF'', ''LC08_B7.TIF'', ''LC08_B8.TIF'', ''LC08_B9.TIF'', ''LC08_B10.TIF'',
        ''LC08_B11.TIF'', ''LC08_BQA.TIF''] =
       Inr [''LC08_B1.TIF'', ''LC08_B2.TIF'', ''LC08_B3.TIF'', ''LC08_B4.TIF'', ''LC08_B5.TIF'',
        ''LC08_B6.TIF'', ''LC08_B7.TIF'', ''LC08_B8.TIF'', ''LC08_B9.TIF'', ''LC08_B10.TIF'',
        ''LC08_B11.TIF'', ''LC08_BQA.TIF'']
   \<and> \<not> contains ''_B'' (''LC08'' @ ''_'') \<and> isdigit ''10''
   \<and> int (length ''10'') \<le> max_str_digits
   \<and> band_number (''LC08'' @ ''_B'' @ ''10'' @ ''.'' @ ''TIF'') = Inr (enat (digits_to_nat ''10''))
   \<and> digits_to_nat ''10'' = 10
   \<and> band_number ''LC08_B9.TIF'' = Inr 9 \<and> band_number ''LC08_B10.TIF'' = Inr 10
   \<and> \<not> str_isdigit (band_token ''LC08_BQA.TIF'') \<and> band_number ''LC08_BQA.TIF'' = Inr \<infinity>"
proof -
  note bad = sort_list_of_bands_order [of "[''x_B'' @ [CHR 0xB2] @ ''.TIF'', ''x_B1.TIF'']"]
  note good = sort_list_of_bands_order [of
      "[''LC08_B11.TIF'', ''LC08_B2.TIF'', ''LC08_BQA.TIF'', ''LC08_B10.TIF'', ''LC08_B1.TIF'',
        ''LC08_B9.TIF'', ''LC08_B3.TIF'', ''LC08_B8.TIF'', ''LC08_B4.TIF'', ''LC08_B7.TIF'',
        ''LC08_B5.TIF'', ''LC08_B6.TIF'']"]
  have raised: "sort_list_of_bands [''x_B'' @ [CHR 0xB2] @ ''.TIF'', ''x_B1.TIF'']
      = Inl ValueError"
    using bad sort_superscript_band(1) by blast
  have rejected: "py_int [CHR 0xB2] = None"
    using bad sort_superscript_band(3,4) by blast
  have number: "band_number (''x_B'' @ [CHR 0xB2] @ ''.TIF'') = Inl ValueError"
    using bad sort_superscript_band(2,3) rejected by simp
  from good sort_eleven_bands(2) obtain sorted_bands where
    s: "sort_list_of_bands
       [''LC08_B11.TIF'', ''LC08_B2.TIF'', ''LC08_BQA.TIF'', ''LC08_B10.TIF'', ''LC08_B1.TIF'',
        ''LC08_B9.TIF'', ''LC08_B3.TIF'', ''LC08_B8.TIF'', ''LC08_B4.TIF'', ''LC08_B7.TIF'',
        ''LC08_B5.TIF'', ''LC08_B6.TIF''] = Inr sorted_bands"
    and idem: "sort_list_of_bands sorted_bands = Inr sorted_bands"
    by blast
  from s have sorted_bands: "sorted_bands =
      [''LC08_B1.TIF'', ''LC08_B2.TIF'', ''LC08_B3.TIF'', ''LC08_B4.TIF'', ''LC08_B5.TIF'',
        ''LC08_B6.TIF'', ''LC08_B7.TIF'', ''LC08_B8.TIF'', ''LC08_B9.TIF'', ''LC08_B10.TIF'',
        ''LC08_B11.TIF'', ''LC08_BQA.TIF'']"
    by (simp add: sort_eleven_bands(1))
  have name: "\<not> contains ''_B'' (pre @ ''_'') \<and> isdigit ds \<and> int (length ds) \<le> max_str_digits
      \<longrightarrow> band_number (pre @ ''_B'' @ ds @ ''.'' @ ext) = Inr (enat (digits_to_nat ds))"
    for pre ds ext
    using good by blast
  have ten: "band_number (''LC08'' @ ''_B'' @ ''10'' @ ''.'' @ ''TIF'')
      = Inr (enat (digits_to_nat ''10''))"
    using name [of "''LC08''" "''10''" "''TIF''"] band_number_examples(6,7,8) by simp
  have qa: "band_number ''LC08_BQA.TIF'' = Inr \<infinity>"
    using good band_number_examples(5) by blast
  show ?thesis
    using raised rejected number idem [unfolded sorted_bands] ten qa
      sort_superscript_band(1,3,4) sort_eleven_bands band_number_examples
    by simp
qed

section \<open>The metadata timestamp\<close>

subsection \<open>Seconds with a fraction\<close>

text \<open>
  Claim C1. For a time \<open>pre.d\<close> whose fraction \<open>d\<close> and whose seconds \<open>s\<close> are decimal digits,
  the default processing (lines 540 to 552 of the script, 85 to 97 of \<^verbatim>\<open>timestamp.py\<close>) adds
  to the integer \<open>s\<close> the double nearest to \<open>d / 10000000\<close>, rounded to six decimals; the sum
  is a finite double that is not negative, and it is rendered with an integer part of at
  least two digits and exactly six decimals. The code then keeps only the integer part, two
  digits, when that part is below ten, and the whole rendering otherwise. So a fraction
  \<open>5\<close> counts as \<open>5 / 10000000\<close>, not as a half, and seconds below ten lose their fraction:
  the times \<open>10:20:9.5\<close> and \<open>10:20:09.5000000\<close> both give the seconds \<open>09\<close>.
\<close>

theorem seconds_with_microseconds_rendering:
  assumes pre: "CHR ''.'' \<notin> set pre" and d: "isdigit d" and s: "isdigit s"
    and r: "seconds_with_microseconds (pre @ ''.'' @ d) s = Inr r"
  shows "\<exists>m e.
           float_add (float_of_int (digits_to_int s))
             (float_round6 (float_div_int (round_to_double False (digits_to_int d) 1 0)
                10000000)) = Finite m e
           \<and> 0 \<le> m
           \<and> (let a = micros m e div 1000000; b = micros m e mod 1000000
              in r = zfill (digits_of a) 2 @ ''.'' @ zfill (digits_of b) 6
                 \<and> isdigit (zfill (digits_of a) 2) \<and> 2 \<le> length (zfill (digits_of a) 2)
                 \<and> isdigit (zfill (digits_of b) 6) \<and> length (zfill (digits_of b) 6) = 6
                 \<and> drop_fraction_below_ten r
                     = Inr (if a < 10 then zfill (digits_of a) 2 else r)
                 \<and> (a < 10 \<longrightarrow> length (zfill (digits_of a) 2) = 2))"
proof -
  define i where "i = digits_to_int s"
  define F2 where "F2 = float_round6
     (float_div_int (round_to_double False (digits_to_int d) 1 0) 10000000)"
  have i0: "0 \<le> i"
    by (simp add: i_def digits_to_int_nonneg)
  have sc: "split_char CHR ''.'' (pre @ ''.'' @ d) = [pre, d]"
    using split_char_two [OF pre isdigit_parts(5) [OF d]] by simp
  have F2: "nonneg_float F2"
    unfolding F2_def
    by (intro float_round6_nonneg float_div_int_nonneg round_to_double_nonneg)
      (simp_all add: digits_to_int_nonneg)
  have len: "int (length s) \<le> max_str_digits"
  proof (rule ccontr)
    assume "\<not> int (length s) \<le> max_str_digits"
    then have "py_int s = None"
      by (simp add: py_int_digits_limit [OF s])
    then have "seconds_with_microseconds (pre @ ''.'' @ d) s = Inl ValueError"
      by (simp only: seconds_with_microseconds_def sc list.case py_float_digits [OF d]
          option.case)
    with r show False by simp
  qed
  have unfolded: "seconds_with_microseconds (pre @ ''.'' @ d) s =
     (case float_of_int i of
        Finite m e \<Rightarrow> add_leading_zeroes (format_6f (float_add (Finite m e) F2)) 2
      | _ \<Rightarrow> Inl OverflowError)"
    by (simp only: seconds_with_microseconds_def sc list.case py_float_digits [OF d]
        py_int_digits [OF s len] option.case i_def F2_def)
  obtain m0 e0 where f0: "float_of_int i = Finite m0 e0" and m0: "0 \<le> m0"
  proof (cases "float_of_int i")
    case (Finite m0 e0)
    moreover from float_of_int_nonneg [OF i0] Finite have "0 \<le> m0"
      by (simp add: nonneg_float_def)
    ultimately show ?thesis using that by blast
  next
    case (Infinite b)
    with unfolded r show ?thesis by simp
  next
    case NaN
    with unfolded r show ?thesis by simp
  qed
  define X where "X = float_add (Finite m0 e0) F2"
  have X: "nonneg_float X"
    unfolding X_def using m0 F2 by (rule float_add_nonneg)
  have res: "add_leading_zeroes (format_6f X) 2 = Inr r"
    using unfolded r f0 by (simp add: X_def)
  obtain m e where Xf: "X = Finite m e" and m: "0 \<le> m"
  proof (cases X)
    case (Finite m e)
    moreover from X Finite have "0 \<le> m" by (simp add: nonneg_float_def)
    ultimately show ?thesis using that by blast
  next
    case (Infinite b)
    with X have "X = Infinite False" by (simp add: nonneg_float_def)
    with res show ?thesis by (simp add: format_6f_def add_leading_zeroes_inf)
  next
    case NaN
    with X show ?thesis by (simp add: nonneg_float_def)
  qed
  define a where "a = micros m e div 1000000"
  define b where "b = micros m e mod 1000000"
  have a0: "0 \<le> a" and b0: "0 \<le> b" and b6: "b < 1000000"
    using micros_nonneg [of m e] by (simp_all add: a_def b_def pos_imp_zdiv_nonneg_iff)
  have ip: "isdigit (digits_of a)" and fp: "isdigit (zfill (digits_of b) 6)"
    and ip2: "isdigit (zfill (digits_of a) 2)"
    using a0 b0 by (simp_all add: isdigit_zfill isdigit_digits_of)
  have "format_6f X = digits_of a @ ''.'' @ zfill (digits_of b) 6"
    using format_6f_finite [OF m, of e] by (simp add: Xf a_def b_def)
  then have rr: "r = zfill (digits_of a) 2 @ ''.'' @ zfill (digits_of b) 6"
    using res add_leading_zeroes_decimal [OF ip fp, of 2] by simp
  have sum: "float_add (float_of_int (digits_to_int s))
             (float_round6 (float_div_int (round_to_double False (digits_to_int d) 1 0)
                10000000)) = Finite m e"
    using Xf f0 by (simp add: X_def F2_def i_def)
  have drop: "drop_fraction_below_ten r = Inr (if a < 10 then zfill (digits_of a) 2 else r)"
    using drop_fraction_rendered [OF a0 b0 b6] by (simp add: rr)
  have "r = zfill (digits_of a) 2 @ ''.'' @ zfill (digits_of b) 6
        \<and> isdigit (zfill (digits_of a) 2) \<and> 2 \<le> length (zfill (digits_of a) 2)
        \<and> isdigit (zfill (digits_of b) 6) \<and> length (zfill (digits_of b) 6) = 6
        \<and> drop_fraction_below_ten r = Inr (if a < 10 then zfill (digits_of a) 2 else r)
        \<and> (a < 10 \<longrightarrow> length (zfill (digits_of a) 2) = 2)"
    using rr ip2 fp length_zfill_2 [OF a0] length_zfill_6 [OF b0 b6] drop by blast
  then show ?thesis
    using sum m unfolding a_def b_def Let_def by blast
qed

theorem seconds_with_microseconds_rendering_witness:
  "CHR ''.'' \<notin> set ''10:20:19'' \<and> isdigit ''5000000'' \<and> isdigit ''19''
   \<and> seconds_with_microseconds (''10:20:19'' @ ''.'' @ ''5000000'') ''19'' = Inr ''19.500000''
   \<and> drop_fraction_below_ten ''19.500000'' = Inr ''19.500000''"
proof -
  note ex = example_19_5
  from seconds_with_microseconds_rendering [OF ex(1-4)] obtain m e where
    sum: "float_add (float_of_int (digits_to_int ''19''))
            (float_round6 (float_div_int (round_to_double False (digits_to_int ''5000000'') 1 0)
               10000000)) = Finite m e"
    and rest: "let a = micros m e div 1000000; b = micros m e mod 1000000
       in ''19.500000'' = zfill (digits_of a) 2 @ ''.'' @ zfill (digits_of b) 6
          \<and> isdigit (zfill (digits_of a) 2) \<and> 2 \<le> length (zfill (digits_of a) 2)
          \<and> isdigit (zfill (digits_of b) 6) \<and> length (zfill (digits_of b) 6) = 6
          \<and> drop_fraction_below_ten ''19.500000''
              = Inr (if a < 10 then zfill (digits_of a) 2 else ''19.500000'')
          \<and> (a < 10 \<longrightarrow> length (zfill (digits_of a) 2) = 2)"
    by blast
  have micros: "micros m e = 19500000"
    using ex(5) sum by simp
  from rest have "drop_fraction_below_ten ''19.500000''
      = Inr (if micros m e div 1000000 < 10
             then zfill (digits_of (micros m e div 1000000)) 2 else ''19.500000'')"
    unfolding Let_def by blast
  with micros have "drop_fraction_below_ten ''19.500000'' = Inr ''19.500000''"
    by simp
  with ex(1-4) show ?thesis
    by (intro conjI)
qed

theorem seconds_below_ten_counterexample:
  "fst (get_timestamp example_metafile DATE_STRINGS TIME_STRINGS ZERO_TIMEZONE
          ''/data/LC08_9_5'' False example_world)
     = Inr \<lparr>date = Some ''2015-06-12'', hours = Some ''10'', minutes = Some ''20'',
            seconds = Some ''09'', timezone = Some ''+0000''\<rparr>
   \<and> fst (get_timestamp example_metafile DATE_STRINGS TIME_STRINGS ZERO_TIMEZONE
          ''/data/LC08_09_5'' False example_world)
     = Inr \<lparr>date = Some ''2015-06-12'', hours = Some ''10'', minutes = Some ''20'',
            seconds = Some ''09'', timezone = Some ''+0000''\<rparr>
   \<and> seconds_with_microseconds ''10:20:9.5'' ''9'' = Inr ''09.000000''
   \<and> seconds_with_microseconds ''10:20:09.5000000'' ''09'' = Inr ''09.500000''
   \<and> drop_fraction_below_ten ''09.500000'' = Inr ''09''"
  by (intro conjI example_9_5)

subsection \<open>The round trip of the example\<close>

text \<open>
  Claim C2. The metadata file with the lines \<^verbatim>\<open>DATE_ACQUIRED = 2015-06-12\<close> and
  \<^verbatim>\<open>SCENE_CENTER_TIME = "09:15:23.1234560Z"\<close> is parsed by \<^verbatim>\<open>get_timestamp\<close> of \<^verbatim>\<open>timestamp.py\<close>,
  with the microseconds, to the date \<open>2015-06-12\<close>, the time \<open>09\<close>, \<open>15\<close>, \<open>23.123456\<close> and
  the timezone \<open>+0000\<close>; the timestamp given to the raster store is
  \<open>12 June 2015 09:15:23.123456\<close>. The report of \<^verbatim>\<open>print_timestamp\<close> without \<^verbatim>\<open>-t\<close> is the heading
  \<open>Date\<close>, \<open>Time\<close> and a line with the date as it was read, \<open>2015-06-12\<close>, a tab, and
  \<open>09:15:23.123456 +0000\<close>: it has no date with the day first and the month in letters.
\<close>

theorem example_round_trip:
  "fst (get_timestamp example_metafile DATE_STRINGS TIME_STRINGS ZERO_TIMEZONE ''/data/LC08''
          False example_world)
     = Inr \<lparr>date = Some ''2015-06-12'', hours = Some ''09'', minutes = Some ''15'',
            seconds = Some ''23.123456'', timezone = Some ''+0000''\<rparr>
   \<and> print_timestamp ''LC08''
       (Parsed \<lparr>date = Some ''2015-06-12'', hours = Some ''09'', minutes = Some ''15'',
              seconds = Some ''23.123456'', timezone = Some ''+0000''\<rparr>) False
     = Inr (''Date'' @ TAB @ TAB @ ''Time'' @ NEWLINE @ TAB @ ''2015-06-12'' @ TAB
            @ ''09:15:23.123456 +0000'' @ NEWLINE @ NEWLINE)
   \<and> set_timestamp MONTHS ''B1''
       (Parsed \<lparr>date = Some ''2015-06-12'', hours = Some ''09'', minutes = Some ''15'',
              seconds = Some ''23.123456'', timezone = Some ''+0000''\<rparr>) []
     = (Inr (), [R_timestamp ''B1'' ''12 June 2015 09:15:23.123456''])"
  by (intro conjI example_parse example_report example_store_string)

theorem example_round_trip_witness:
  "map_sum id seconds
     (fst (get_timestamp example_metafile DATE_STRINGS TIME_STRINGS ZERO_TIMEZONE ''/data/LC08''
             False example_world)) = Inr (Some ''23.123456'')
   \<and> snd (set_timestamp MONTHS ''B1''
       (Parsed \<lparr>date = Some ''2015-06-12'', hours = Some ''09'', minutes = Some ''15'',
              seconds = Some ''23.123456'', timezone = Some ''+0000''\<rparr>) [])
     = [R_timestamp ''B1'' ''12 June 2015 09:15:23.123456'']"
  using example_round_trip by simp

text \<open>
  The report is not the line \<open>12 Jun 2015  09:15:23.123456 +0000\<close> and does not contain
  \<open>12 Jun 2015\<close>; with \<^verbatim>\<open>-t\<close> the function raises \<^verbatim>\<open>NameError\<close> and reports nothing.
\<close>

theorem human_report_counterexample:
  "print_timestamp ''LC08''
     (Parsed \<lparr>date = Some ''2015-06-12'', hours = Some ''09'', minutes = Some ''15'',
            seconds = Some ''23.123456'', timezone = Some ''+0000''\<rparr>) False
     = Inr (''Date'' @ TAB @ TAB @ ''Time'' @ NEWLINE @ TAB @ ''2015-06-12'' @ TAB
            @ ''09:15:23.123456 +0000'' @ NEWLINE @ NEWLINE)
   \<and> ''Date'' @ TAB @ TAB @ ''Time'' @ NEWLINE @ TAB @ ''2015-06-12'' @ TAB
       @ ''09:15:23.123456 +0000'' @ NEWLINE @ NEWLINE \<noteq> ''12 Jun 2015  09:15:23.123456 +0000''
   \<and> \<not> contains ''12 Jun 2015'' (''Date'' @ TAB @ TAB @ ''Time'' @ NEWLINE @ TAB
       @ ''2015-06-12'' @ TAB @ ''09:15:23.123456 +0000'' @ NEWLINE @ NEWLINE)
   \<and> print_timestamp ''LC08''
       (Parsed \<lparr>date = Some ''2015-06-12'', hours = Some ''09'', minutes = Some ''15'',
              seconds = Some ''23.123456'', timezone = Some ''+0000''\<rparr>) True
     = Inl NameError"
  by (intro conjI example_report example_report_tgis example_report_differs)

subsection \<open>A metadata file without a date and a time\<close>

text \<open>
  Claim C3. When no line of the metadata file carries a date key or a time key, the parser
  \<^verbatim>\<open>get_timestamp\<close>, of \<^verbatim>\<open>timestamp.py\<close> and of the script, does not fail: it returns the empty
  dictionary. The failure comes after the parser, in \<^verbatim>\<open>print_timestamp\<close>, which raises
  \<^verbatim>\<open>KeyError\<close> on the missing key \<^verbatim>\<open>date\<close>; \<^verbatim>\<open>import_geotiffs\<close> ends with this \<^verbatim>\<open>KeyError\<close> before it
  imports a band of the scene.
\<close>

theorem get_timestamp_without_fields:
  assumes "get_metafile scene tgis = Inr metafile" and "files w metafile = Some (Text text)"
    and "\<forall>l \<in> set (readlines_text [] text).
           \<not> key_line date_strings l \<and> \<not> key_line time_strings l"
  shows "fst (get_timestamp (\<lambda>scene. get_metafile scene tgis) date_strings time_strings zero
            scene skip w) = Inr empty_date_time
     \<and> fst (get_timestamp_script [] get_metafile date_strings time_strings zero scene tgis w)
         = Inr (Parsed empty_date_time)
     \<and> print_timestamp name (Parsed empty_date_time) tgis_flag = Inl KeyError
     \<and> fst (import_geotiffs [] get_metafile date_strings time_strings zero rest scene tgis w)
         = Inl KeyError"
proof -
  have "(\<lambda>scene. get_metafile scene tgis) scene = Inr metafile"
    using assms(1) by simp
  then have "fst (get_timestamp (\<lambda>scene. get_metafile scene tgis) date_strings time_strings
        zero scene skip w)
     = process_lines skip date_strings time_strings zero empty_date_time (readlines_text [] text)"
    using assms(2) by (rule get_timestamp_text)
  then have "fst (get_timestamp (\<lambda>scene. get_metafile scene tgis) date_strings time_strings
        zero scene skip w) = Inr empty_date_time"
    using process_lines_no_key [OF assms(3)] by simp
  then show ?thesis
    using import_geotiffs_without_fields [where get_metafile = get_metafile and scene = scene
        and tgis = tgis, OF assms] print_timestamp_empty
    by simp
qed

theorem get_timestamp_without_fields_witness:
  "example_metafile ''/data/LC08_no_fields'' = Inr ''/data/LC08_no_fields/LC08_MTL.txt''
   \<and> files example_world ''/data/LC08_no_fields/LC08_MTL.txt''
       = Some (Text example_metadata_no_fields)
   \<and> fst (get_timestamp example_metafile DATE_STRINGS TIME_STRINGS ZERO_TIMEZONE
          ''/data/LC08_no_fields'' False example_world) = Inr empty_date_time
   \<and> fst (get_timestamp_script [] (\<lambda>scene tgis. example_metafile scene) DATE_STRINGS
          TIME_STRINGS ZERO_TIMEZONE ''/data/LC08_no_fields'' False example_world)
       = Inr (Parsed empty_date_time)
   \<and> print_timestamp ''LC08_no_fields'' (Parsed empty_date_time) False = Inl KeyError
   \<and> fst (import_geotiffs [] (\<lambda>scene tgis. example_metafile scene) DATE_STRINGS TIME_STRINGS
          ZERO_TIMEZONE (\<lambda>timestamp w. (fst (set_timestamp MONTHS ''B1'' timestamp []), w))
          ''/data/LC08_no_fields'' False example_world)
       = Inl KeyError"
  using get_timestamp_without_fields [where get_metafile = "\<lambda>scene tgis. example_metafile scene"
      and scene = "''/data/LC08_no_fields''" and tgis = False and w = example_world
      and zero = ZERO_TIMEZONE and skip = False and name = "''LC08_no_fields''"
      and tgis_flag = False
      and rest = "\<lambda>timestamp w. (fst (set_timestamp MONTHS ''B1'' timestamp []), w)",
      OF example_no_fields(1-3)] example_no_fields(1,2)
  by simp

theorem parser_returns_empty_counterexample:
  "fst (get_timestamp example_metafile DATE_STRINGS TIME_STRINGS ZERO_TIMEZONE
          ''/data/LC08_no_fields'' False example_world) = Inr empty_date_time
   \<and> fst (get_timestamp example_metafile DATE_STRINGS TIME_STRINGS ZERO_TIMEZONE
          ''/data/LC08_no_fields'' False example_world)
       = Inr \<lparr>date = None, hours = None, minutes = None, seconds = None, timezone = None\<rparr>
   \<and> fst (get_timestamp_script [] (\<lambda>scene tgis. example_metafile scene) DATE_STRINGS
          TIME_STRINGS ZERO_TIMEZONE ''/data/LC08_no_fields'' False example_world)
       = Inr (Parsed empty_date_time)"
  using example_no_fields(4,5) by (simp add: empty_date_time_def)

subsection \<open>The timezone\<close>

text \<open>
  Claim C6. The timezone of a parsed timestamp is the zero timezone exactly when some time
  line of the metadata file, without its quotes, ends with \<^verbatim>\<open>Z\<close>; otherwise the dictionary has
  no timezone at all, there is no default, and \<^verbatim>\<open>print_timestamp\<close> raises \<^verbatim>\<open>KeyError\<close> on it.
\<close>

theorem get_timestamp_timezone:
  assumes "get_metafile scene = Inr metafile" and "files w metafile = Some (Text text)"
    and "fst (get_timestamp get_metafile date_strings time_strings zero scene skip w) = Inr t"
  shows "timezone t =
           (if \<exists>l \<in> set (readlines_text [] text). key_line time_strings l \<and> carries_Z l
            then Some zero else None)
     \<and> (timezone t = None \<longrightarrow> print_timestamp name (Parsed t) tgis = Inl KeyError)"
proof -
  have "fst (get_timestamp get_metafile date_strings time_strings zero scene skip w)
     = process_lines skip date_strings time_strings zero empty_date_time (readlines_text [] text)"
    using assms(1,2) by (rule get_timestamp_text)
  then have p: "process_lines skip date_strings time_strings zero empty_date_time
          (readlines_text [] text) = Inr t"
    using assms(3) by simp
  have "\<forall>d. date empty_date_time = Some d \<longrightarrow> strptime_date d \<noteq> None"
    by (simp add: empty_date_time_def)
  with p have d: "\<forall>d. date t = Some d \<longrightarrow> strptime_date d \<noteq> None"
    by (rule process_lines_date)
  have "timezone t = None \<longrightarrow> print_timestamp name (Parsed t) tgis = Inl KeyError"
    using print_timestamp_no_timezone [OF _ d] by blast
  with process_lines_timezone [OF p] show ?thesis
    by (simp add: empty_date_time_def)
qed

theorem get_timestamp_timezone_witness:
  "example_metafile ''/data/LC08_no_Z'' = Inr ''/data/LC08_no_Z/LC08_MTL.txt''
   \<and> files example_world ''/data/LC08_no_Z/LC08_MTL.txt'' = Some (Text example_metadata_no_Z)
   \<and> fst (get_timestamp example_metafile DATE_STRINGS TIME_STRINGS ZERO_TIMEZONE
          ''/data/LC08_no_Z'' False example_world)
     = Inr \<lparr>date = Some ''2015-06-12'', hours = Some ''09'', minutes = Some ''15'',
            seconds = Some ''23.123456'', timezone = None\<rparr>
   \<and> timezone \<lparr>date = Some ''2015-06-12'', hours = Some ''09'', minutes = Some ''15'',
            seconds = Some ''23.123456'', timezone = None\<rparr>
     = (if \<exists>l \<in> set (readlines_text [] example_metadata_no_Z).
             key_line TIME_STRINGS l \<and> carries_Z l
        then Some ZERO_TIMEZONE else None)
   \<and> print_timestamp ''LC08_no_Z''
       (Parsed \<lparr>date = Some ''2015-06-12'', hours = Some ''09'', minutes = Some ''15'',
          seconds = Some ''23.123456'', timezone = None\<rparr>) False = Inl KeyError"
  using get_timestamp_timezone [where get_metafile = example_metafile
      and scene = "''/data/LC08_no_Z''" and w = example_world and zero = ZERO_TIMEZONE
      and skip = False and name = "''LC08_no_Z''" and tgis = False,
      OF example_no_Z(1-3)] example_no_Z(1-3)
  by simp

theorem timezone_absent_counterexample:
  "fst (get_timestamp example_metafile DATE_STRINGS TIME_STRINGS ZERO_TIMEZONE
          ''/data/LC08_no_Z'' False example_world)
     = Inr \<lparr>date = Some ''2015-06-12'', hours = Some ''09'', minutes = Some ''15'',
            seconds = Some ''23.123456'', timezone = None\<rparr>
   \<and> \<not> (\<exists>l \<in> set (readlines_text [] example_metadata_no_Z).
          key_line TIME_STRINGS l \<and> carries_Z l)
   \<and> print_timestamp ''LC08_no_Z''
       (Parsed \<lparr>date = Some ''2015-06-12'', hours = Some ''09'', minutes = Some ''15'',
              seconds = Some ''23.123456'', timezone = None\<rparr>) False = Inl KeyError"
  by (intro conjI example_no_Z)

subsection \<open>A manual timestamp\<close>

text \<open>
  Claim C8. With a manual timestamp \<^verbatim>\<open>get_timestamp\<close> of the script returns the string and
  leaves the world as it is: no file is opened or read. \<^verbatim>\<open>set_timestamp\<close> would pass the
  string to the raster store as it is. But \<^verbatim>\<open>import_geotiffs\<close> prints the timestamp before it
  imports a band, \<^verbatim>\<open>print_timestamp\<close> indexes the string as a dictionary and raises
  \<^verbatim>\<open>TypeError\<close>, and \<^verbatim>\<open>import_geotiffs\<close> ends there, whatever would follow: the manual
  timestamp never reaches the store.
\<close>

theorem manual_timestamp_fails_in_report:
  assumes "options_timestamp \<noteq> []"
  shows "get_timestamp_script options_timestamp get_metafile date_strings time_strings zero
           scene tgis w = (Inr (Manual options_timestamp), w)
     \<and> set_timestamp months band (Manual options_timestamp) calls
         = (Inr (), calls @ [R_timestamp band options_timestamp])
     \<and> print_timestamp name (Manual options_timestamp) tgis = Inl TypeError
     \<and> import_geotiffs options_timestamp get_metafile date_strings time_strings zero
         rest scene tgis w = (Inl TypeError, w)"
  using assms
  by (simp add: get_timestamp_script_def set_timestamp_def build_r_timestamp_def
      print_timestamp_def import_geotiffs_def)

theorem manual_timestamp_fails_in_report_witness:
  "''12 Jun 2015 09:15:23'' \<noteq> []
   \<and> get_timestamp_script ''12 Jun 2015 09:15:23'' (\<lambda>scene tgis. example_metafile scene)
       DATE_STRINGS TIME_STRINGS ZERO_TIMEZONE ''/data/LC08'' False example_world
     = (Inr (Manual ''12 Jun 2015 09:15:23''), example_world)
   \<and> set_timestamp MONTHS ''B1'' (Manual ''12 Jun 2015 09:15:23'') []
     = (Inr (), [R_timestamp ''B1'' ''12 Jun 2015 09:15:23''])
   \<and> print_timestamp ''LC08'' (Manual ''12 Jun 2015 09:15:23'') False = Inl TypeError
   \<and> import_geotiffs ''12 Jun 2015 09:15:23'' (\<lambda>scene tgis. example_metafile scene)
       DATE_STRINGS TIME_STRINGS ZERO_TIMEZONE
       (\<lambda>timestamp w. (fst (set_timestamp MONTHS ''B1'' timestamp []), w))
       ''/data/LC08'' False example_world
     = (Inl TypeError, example_world)"
  using manual_timestamp_fails_in_report [where options_timestamp = "''12 Jun 2015 09:15:23''"
      and get_metafile = "\<lambda>scene tgis. example_metafile scene"
      and date_strings = DATE_STRINGS and time_strings = TIME_STRINGS and zero = ZERO_TIMEZONE
      and scene = "''/data/LC08''" and tgis = False and w = example_world
      and months = MONTHS and band = "''B1''" and calls = "[]" and name = "''LC08''"
      and rest = "\<lambda>timestamp w. (fst (set_timestamp MONTHS ''B1'' timestamp []), w)"]
  by simp

subsection \<open>The handle of the metadata file\<close>

text \<open>
  Claim C9. In a world where the next handle is not in use, the handles that are open after
  \<^verbatim>\<open>get_timestamp\<close>, of \<^verbatim>\<open>timestamp.py\<close> and of the script, are the handles that were open
  before it, whether it returns a timestamp or raises while it reads or validates. When the
  file cannot be opened there is no handle: the \<^verbatim>\<open>finally\<close> clause raises
  \<^verbatim>\<open>UnboundLocalError\<close> on \<^verbatim>\<open>metadata\<close> and the world is as before.
\<close>

theorem get_timestamp_releases_file:
  assumes "next_handle w \<notin> set (open_handles w)"
  shows "open_handles (snd (get_timestamp get_metafile date_strings time_strings zero scene skip w))
           = open_handles w
     \<and> open_handles (snd (get_timestamp_script options_timestamp get_metafile2 date_strings
            time_strings zero scene tgis w)) = open_handles w
     \<and> (get_metafile scene = Inr metafile \<and> files w metafile = None \<longrightarrow>
          get_timestamp get_metafile date_strings time_strings zero scene skip w
            = (Inl UnboundLocalError, w))"
proof (intro conjI impI)
  show "open_handles (snd (get_timestamp get_metafile date_strings time_strings zero scene skip w))
           = open_handles w"
    by (rule get_timestamp_handles [OF assms])
  show "open_handles (snd (get_timestamp_script options_timestamp get_metafile2 date_strings
            time_strings zero scene tgis w)) = open_handles w"
    by (rule get_timestamp_script_handles [OF assms])
  assume "get_metafile scene = Inr metafile \<and> files w metafile = None"
  then show "get_timestamp get_metafile date_strings time_strings zero scene skip w
            = (Inl UnboundLocalError, w)"
    by (simp add: get_timestamp_open_fails)
qed

theorem get_timestamp_releases_file_witness:
  "next_handle example_world \<notin> set (open_handles example_world)
   \<and> open_handles (snd (get_timestamp example_metafile DATE_STRINGS TIME_STRINGS
        ZERO_TIMEZONE ''/data/LC08'' False example_world)) = []
   \<and> fst (get_timestamp example_metafile DATE_STRINGS TIME_STRINGS ZERO_TIMEZONE
          ''/data/LC08_bad_date'' False example_world) = Inl ValueError
   \<and> open_handles (snd (get_timestamp example_metafile DATE_STRINGS TIME_STRINGS
        ZERO_TIMEZONE ''/data/LC08_bad_date'' False example_world)) = []
   \<and> fst (get_timestamp example_metafile DATE_STRINGS TIME_STRINGS ZERO_TIMEZONE
          ''/data/LC08_binary'' False example_world) = Inl ReadError
   \<and> open_handles (snd (get_timestamp example_metafile DATE_STRINGS TIME_STRINGS
        ZERO_TIMEZONE ''/data/LC08_binary'' False example_world)) = []
   \<and> fst (get_timestamp_script '''' (\<lambda>scene tgis. example_metafile scene) DATE_STRINGS
          TIME_STRINGS ZERO_TIMEZONE ''/data/LC08'' False example_world) = Inl NameError
   \<and> open_handles (snd (get_timestamp_script '''' (\<lambda>scene tgis. example_metafile scene)
        DATE_STRINGS TIME_STRINGS ZERO_TIMEZONE ''/data/LC08'' False example_world)) = []
   \<and> example_metafile ''/data/nowhere'' = Inr ''/data/nowhere/LC08_MTL.txt''
   \<and> files example_world ''/data/nowhere/LC08_MTL.txt'' = None
   \<and> get_timestamp example_metafile DATE_STRINGS TIME_STRINGS ZERO_TIMEZONE
       ''/data/nowhere'' False example_world = (Inl UnboundLocalError, example_world)"
proof -
  note released = get_timestamp_releases_file [where w = example_world
      and get_metafile = example_metafile and date_strings = DATE_STRINGS
      and time_strings = TIME_STRINGS and zero = ZERO_TIMEZONE and skip = False
      and options_timestamp = "''''"
      and ?get_metafile2.0 = "\<lambda>scene tgis. example_metafile scene" and tgis = False,
      OF example_handles(1)]
  show ?thesis
    using released [where scene = "''/data/LC08''"]
      released [where scene = "''/data/LC08_bad_date''"]
      released [where scene = "''/data/LC08_binary''"]
      released [where scene = "''/data/nowhere''"
        and metafile = "''/data/nowhere/LC08_MTL.txt''"]
      example_handles example_script_parse(1)
    by simp
qed

end
